theory Spec2Isabelle
  imports Complex_Main "HOL-Library.Log_Nat"
begin

section \<open>Data model\<close>

text \<open>
  The gift-card ledger and the commission settlement services of the platform, as the
  TypeScript of \<^verbatim>\<open>docs/modules/payments.md\<close> and \<^verbatim>\<open>app/exceptions\<close> writes them.
  A JavaScript \<^verbatim>\<open>number\<close> holding money is a rational here; balances are added,
  subtracted and compared exactly, and the commission, the one place where the code
  multiplies and divides, is computed as double-precision arithmetic computes it. A
  \<^verbatim>\<open>DateTime\<close> is a number of seconds; a table is the list of its rows in insertion
  order, and a new row gets the next serial id. Service calls are taken one at a time:
  what two interleaved calls do to the same row is outside this development.
\<close>

type_synonym number = rat
type_synonym timestamp = nat

datatype gift_card_status = Active | Used | Expired | Cancelled

datatype transaction_type = RechargeTx | UsageTx | RefundTx

datatype commission_status = Pending | Charged | Paid | Failed

record franchisee =
  fr_id :: nat
  fr_commissionRate :: number

record address =
  addr_street :: string
  addr_number :: string
  addr_complement :: "string option"
  addr_neighborhood :: string
  addr_city :: string
  addr_state :: string
  addr_zipCode :: string

record user =
  usr_email :: string
  usr_phone :: "string option"

record establishment =
  est_id :: nat
  est_franchiseeId :: nat
  est_name :: string
  est_cnpj :: string
  est_user :: user
  est_address :: address
  est_asaasCustomerId :: "string option"

record giftCard =
  gc_id :: nat
  gc_code :: string
  gc_qrCode :: string
  gc_franchiseeId :: nat
  gc_establishmentId :: nat
  gc_initialValue :: number
  gc_currentBalance :: number
  gc_status :: gift_card_status
  gc_validUntil :: "timestamp option"

record transaction =
  tx_id :: nat
  tx_giftCardId :: nat
  tx_establishmentId :: nat
  tx_type :: transaction_type
  tx_amount :: number
  tx_balanceBefore :: number
  tx_balanceAfter :: number
  tx_description :: "string option"

record commission =
  com_id :: nat
  com_franchiseeId :: nat
  com_establishmentId :: nat
  com_transactionId :: nat
  com_amount :: number
  com_rate :: number
  com_status :: commission_status
  com_asaasChargeId :: "string option"
  com_paymentMethod :: "string option"
  com_paidAt :: "timestamp option"

text \<open>The tables the ledger services read and write.\<close>

record ledger =
  franchisees :: "franchisee list"
  establishments :: "establishment list"
  giftCards :: "giftCard list"
  transactions :: "transaction list"
  commissions :: "commission list"

section \<open>Double-precision arithmetic\<close>

text \<open>
  A JavaScript \<^verbatim>\<open>number\<close> is an IEEE 754 binary64 value: 53 significant bits, exponents
  from -1022 to 1023, subnormals below, every result rounded to the nearest value, ties
  to the even one. \<open>to_double x\<close> is the double nearest to \<open>x\<close>, which is also how a
  decimal literal is read. Beyond the largest double JavaScript gives \<^verbatim>\<open>Infinity\<close>,
  which is no \<open>number\<close> here: the schemas keep amounts and rates far below.
\<close>

definition pow2 :: "int \<Rightarrow> number" where
  "pow2 k = (if 0 \<le> k then 2 ^ nat k else 1 / 2 ^ nat (- k))"

definition round_half_even :: "number \<Rightarrow> int" where
  "round_half_even y =
     (let f = \<lfloor>y\<rfloor>; r = y - of_int f
      in if r < 1 / 2 then f else if 1 / 2 < r then f + 1 else if even f then f else f + 1)"

definition to_double :: "number \<Rightarrow> number" where
  "to_double x =
     (if x = 0 then 0
      else
        let a = \<bar>x\<bar>;
            e0 = bitlen (fst (quotient_of a)) - bitlen (snd (quotient_of a));
            e = max (if pow2 e0 \<le> a then e0 else e0 - 1) (- 1022);
            ulp = pow2 (e - 52)
        in sgn x * of_int (round_half_even (a / ulp)) * ulp)"

text \<open>\<^verbatim>\<open>x * y\<close> and \<^verbatim>\<open>x / y\<close> on numbers; the divisor is never 0 in what follows.\<close>

definition js_times :: "number \<Rightarrow> number \<Rightarrow> number" where
  "js_times x y = to_double (to_double x * to_double y)"

definition js_over :: "number \<Rightarrow> number \<Rightarrow> number" where
  "js_over x y = to_double (to_double x / to_double y)"

section \<open>Exceptions and the HTTP exception handler\<close>

text \<open>
  \<^verbatim>\<open>BaseException(message, status = 500, code?)\<close> and its subclasses; \<open>Error\<close> is any
  other thrown value (a database driver error, a \<^verbatim>\<open>TypeError\<close>, a gateway error, an
  error of the framework), with its \<^verbatim>\<open>code\<close> property if it has one.
\<close>

datatype exception =
  BaseException (ex_message: string) (ex_status: nat) (ex_code: "string option")
| Error (er_message: string) (er_code: "string option")

text \<open>\<^verbatim>\<open>code || Default.code\<close>: an absent or empty code gives the class's own code.\<close>

definition code_or :: "string option \<Rightarrow> string \<Rightarrow> string" where
  "code_or code dflt = (case code of None \<Rightarrow> dflt | Some c \<Rightarrow> if c = [] then dflt else c)"

definition BadRequestException :: "string \<Rightarrow> string option \<Rightarrow> exception" where
  "BadRequestException message code = BaseException message 400 (Some (code_or code ''E_BAD_REQUEST''))"

definition NotFoundException :: "string \<Rightarrow> string option \<Rightarrow> exception" where
  "NotFoundException message code = BaseException message 404 (Some (code_or code ''E_NOT_FOUND''))"

text \<open>
  The values of a response body; \<open>JErrorMessages\<close> stands for the \<^verbatim>\<open>messages\<close> of a
  validation error, whose shape the validator decides.
\<close>

datatype json = JString string | JNumber number | JUndefined | JErrorMessages

record http_response =
  resp_status :: nat
  resp_body :: "(string \<times> json) list"

definition toJSON :: "exception \<Rightarrow> (string \<times> json) list" where
  "toJSON e =
     [(''code'', case ex_code e of None \<Rightarrow> JUndefined | Some c \<Rightarrow> JString c),
      (''message'', JString (ex_message e)),
      (''status'', JNumber (of_nat (ex_status e)))]"

text \<open>
  \<^verbatim>\<open>HttpExceptionHandler.handle\<close>: one of the platform's own exceptions is answered with
  its own status and its \<^verbatim>\<open>toJSON()\<close>; a validation or authorization failure of the
  framework with 422 and 403; everything else is left to the framework's handler
  (\<open>None\<close>).
\<close>

definition handle :: "exception \<Rightarrow> http_response option" where
  "handle error =
     (case error of
        BaseException m s c \<Rightarrow> Some \<lparr>resp_status = s, resp_body = toJSON error\<rparr>
      | Error m c \<Rightarrow>
          if c = Some ''E_VALIDATION_FAILURE''
          then Some \<lparr>resp_status = 422,
                     resp_body = [(''code'', JString ''E_VALIDATION_FAILURE''),
                                  (''message'', JString ''Validation failed''),
                                  (''errors'', JErrorMessages)]\<rparr>
          else if c = Some ''E_AUTHORIZATION_FAILURE''
          then Some \<lparr>resp_status = 403,
                     resp_body = [(''code'', JString ''E_AUTHORIZATION_FAILURE''),
                                  (''message'', JString ''Access denied'')]\<rparr>
          else None)"

section \<open>Repositories\<close>

text \<open>
  A write to the database can fail (constraint violation, lost connection, serialization
  conflict). Which write of a service call fails, if any, is an argument of the service.
\<close>

datatype db_fault = NoFault | FailTransactionCreate | FailGiftCardUpdate | FailCommissionCreate

definition findById :: "ledger \<Rightarrow> nat \<Rightarrow> giftCard option" where
  "findById w i = find (\<lambda>g. gc_id g = i) (giftCards w)"

definition findByCode :: "ledger \<Rightarrow> string \<Rightarrow> giftCard option" where
  "findByCode w c = find (\<lambda>g. gc_code g = c) (giftCards w)"

record giftCard_updates =
  u_currentBalance :: "number option"
  u_status :: "gift_card_status option"

text \<open>\<^verbatim>\<open>{...giftCard, ...updates}\<close>, also what an update writes into a row.\<close>

definition merge_updates :: "giftCard \<Rightarrow> giftCard_updates \<Rightarrow> giftCard" where
  "merge_updates g u =
     g\<lparr>gc_currentBalance := (case u_currentBalance u of None \<Rightarrow> gc_currentBalance g | Some b \<Rightarrow> b),
       gc_status := (case u_status u of None \<Rightarrow> gc_status g | Some s \<Rightarrow> s)\<rparr>"

definition GiftCardsRepository_update ::
  "db_fault \<Rightarrow> ledger \<Rightarrow> nat \<Rightarrow> giftCard_updates \<Rightarrow> exception + ledger" where
  "GiftCardsRepository_update fault w i u =
     (if fault = FailGiftCardUpdate then Inl (Error ''gift_cards: update failed'' None)
      else Inr (w\<lparr>giftCards := map (\<lambda>g. if gc_id g = i then merge_updates g u else g) (giftCards w)\<rparr>))"

record transaction_input =
  ti_giftCardId :: nat
  ti_establishmentId :: nat
  ti_type :: transaction_type
  ti_amount :: number
  ti_balanceBefore :: number
  ti_balanceAfter :: number
  ti_description :: "string option"

definition TransactionService_create ::
  "db_fault \<Rightarrow> ledger \<Rightarrow> transaction_input \<Rightarrow> exception + (transaction \<times> ledger)" where
  "TransactionService_create fault w i =
     (if fault = FailTransactionCreate then Inl (Error ''transactions: insert failed'' None)
      else
        let t = \<lparr>tx_id = Suc (length (transactions w)),
                 tx_giftCardId = ti_giftCardId i,
                 tx_establishmentId = ti_establishmentId i,
                 tx_type = ti_type i,
                 tx_amount = ti_amount i,
                 tx_balanceBefore = ti_balanceBefore i,
                 tx_balanceAfter = ti_balanceAfter i,
                 tx_description = ti_description i\<rparr>
        in Inr (t, w\<lparr>transactions := transactions w @ [t]\<rparr>))"

record commission_input =
  ci_franchiseeId :: nat
  ci_establishmentId :: nat
  ci_transactionId :: nat
  ci_amount :: number
  ci_rate :: number

text \<open>
  Modelled from the spec: \<^verbatim>\<open>commissionService.create\<close> is not among the sources. The
  spec's lifecycle of a Commission: "created synchronously with the recharge transaction,
  in \<open>pending\<close>", with no gateway charge reference, payment method or paid-at yet.
\<close>

definition CommissionService_create ::
  "db_fault \<Rightarrow> ledger \<Rightarrow> commission_input \<Rightarrow> exception + (commission \<times> ledger)" where
  "CommissionService_create fault w i =
     (if fault = FailCommissionCreate then Inl (Error ''commissions: insert failed'' None)
      else
        let c = \<lparr>com_id = Suc (length (commissions w)),
                 com_franchiseeId = ci_franchiseeId i,
                 com_establishmentId = ci_establishmentId i,
                 com_transactionId = ci_transactionId i,
                 com_amount = ci_amount i,
                 com_rate = ci_rate i,
                 com_status = Pending,
                 com_asaasChargeId = None,
                 com_paymentMethod = None,
                 com_paidAt = None\<rparr>
        in Inr (c, w\<lparr>commissions := commissions w @ [c]\<rparr>))"

section \<open>Gift card services\<close>

text \<open>\<^verbatim>\<open>data.giftCardId || data.code\<close>: the id when it is truthy, else the code.\<close>

datatype card_ref = RefId nat | RefCode string | RefUndefined

definition id_or_code :: "nat option \<Rightarrow> string option \<Rightarrow> card_ref" where
  "id_or_code giftCardId code =
     (let c = (case code of None \<Rightarrow> RefUndefined | Some s \<Rightarrow> RefCode s)
      in case giftCardId of None \<Rightarrow> c | Some n \<Rightarrow> if n = 0 then c else RefId n)"

definition resolve :: "ledger \<Rightarrow> card_ref \<Rightarrow> giftCard option" where
  "resolve w r =
     (case r of RefId n \<Rightarrow> findById w n | RefCode s \<Rightarrow> findByCode w s | RefUndefined \<Rightarrow> None)"

text \<open>
  Modelled from the spec: the body of \<^verbatim>\<open>validateGiftCard\<close> is not among the sources.
  The spec: the operation "resolves the card (by id or code)", "verifies status is
  \<open>active\<close>, verifies \<open>validUntil\<close> (if set) has not passed"; the module's error table
  answers 404 for an unknown card and 422 for an expired, cancelled or used one.
\<close>

definition validateGiftCard :: "timestamp \<Rightarrow> ledger \<Rightarrow> card_ref \<Rightarrow> exception + giftCard" where
  "validateGiftCard now w r =
     (case resolve w r of
        None \<Rightarrow> Inl (NotFoundException ''Gift card not found'' (Some ''GIFT_CARD_NOT_FOUND''))
      | Some g \<Rightarrow>
          if gc_status g \<noteq> Active then Inl (BaseException ''Invalid gift card status'' 422 None)
          else if (case gc_validUntil g of None \<Rightarrow> False | Some t \<Rightarrow> t < now)
          then Inl (BaseException ''Gift card expired'' 422 None)
          else Inr g)"

record rechargeData =
  rd_giftCardId :: "nat option"
  rd_code :: "string option"
  rd_establishmentId :: nat
  rd_amount :: number
  rd_description :: "string option"

record rechargeResult =
  rr_transaction :: transaction
  rr_giftCard :: giftCard
  rr_commission :: commission

text \<open>
  \<^verbatim>\<open>RechargeGiftCardService.execute\<close>. The three writes are awaited one after the other;
  an exception thrown by one of them leaves the earlier ones in the database, so the
  ledger is returned whether the call returns or throws. \<^verbatim>\<open>giftCard.franchisee\<close> is
  the row the card's \<^verbatim>\<open>franchiseeId\<close> points at; reading \<^verbatim>\<open>commissionRate\<close> of a
  missing one is a \<^verbatim>\<open>TypeError\<close>.
\<close>

definition RechargeGiftCardService_execute ::
  "db_fault \<Rightarrow> timestamp \<Rightarrow> ledger \<Rightarrow> rechargeData \<Rightarrow> (exception + rechargeResult) \<times> ledger" where
  "RechargeGiftCardService_execute fault now w data =
     (case validateGiftCard now w (id_or_code (rd_giftCardId data) (rd_code data)) of
        Inl e \<Rightarrow> (Inl e, w)
      | Inr giftCard \<Rightarrow>
          let balanceBefore = gc_currentBalance giftCard;
              balanceAfter = balanceBefore + rd_amount data
          in (case TransactionService_create fault w
                     \<lparr>ti_giftCardId = gc_id giftCard,
                      ti_establishmentId = rd_establishmentId data,
                      ti_type = RechargeTx,
                      ti_amount = rd_amount data,
                      ti_balanceBefore = balanceBefore,
                      ti_balanceAfter = balanceAfter,
                      ti_description = rd_description data\<rparr> of
                Inl e \<Rightarrow> (Inl e, w)
              | Inr (transaction, w1) \<Rightarrow>
                 (case GiftCardsRepository_update fault w1 (gc_id giftCard)
                         \<lparr>u_currentBalance = Some balanceAfter, u_status = None\<rparr> of
                    Inl e \<Rightarrow> (Inl e, w1)
                  | Inr w2 \<Rightarrow>
                      (case find (\<lambda>f. fr_id f = gc_franchiseeId giftCard) (franchisees w2) of
                         None \<Rightarrow> (Inl (Error ''TypeError: franchisee is undefined'' None), w2)
                       | Some franchisee \<Rightarrow>
                           (case CommissionService_create fault w2
                                   \<lparr>ci_franchiseeId = gc_franchiseeId giftCard,
                                    ci_establishmentId = rd_establishmentId data,
                                    ci_transactionId = tx_id transaction,
                                    ci_amount =
                                      js_times (rd_amount data)
                                        (js_over (fr_commissionRate franchisee) 100),
                                    ci_rate = fr_commissionRate franchisee\<rparr> of
                              Inl e \<Rightarrow> (Inl e, w2)
                            | Inr (commission, w3) \<Rightarrow>
                                (Inr \<lparr>rr_transaction = transaction,
                                      rr_giftCard = giftCard,
                                      rr_commission = commission\<rparr>, w3))))))"

record useData =
  ud_giftCardId :: "nat option"
  ud_code :: "string option"
  ud_establishmentId :: nat
  ud_amount :: number
  ud_description :: "string option"

record useResult =
  ur_transaction :: transaction
  ur_giftCard :: giftCard

text \<open>\<^verbatim>\<open>UseGiftCardService.execute\<close>.\<close>

definition UseGiftCardService_execute ::
  "db_fault \<Rightarrow> timestamp \<Rightarrow> ledger \<Rightarrow> useData \<Rightarrow> (exception + useResult) \<times> ledger" where
  "UseGiftCardService_execute fault now w data =
     (case validateGiftCard now w (id_or_code (ud_giftCardId data) (ud_code data)) of
        Inl e \<Rightarrow> (Inl e, w)
      | Inr giftCard \<Rightarrow>
          if gc_currentBalance giftCard < ud_amount data
          then (Inl (BadRequestException ''Insufficient balance'' None), w)
          else
            let balanceBefore = gc_currentBalance giftCard;
                balanceAfter = balanceBefore - ud_amount data
            in (case TransactionService_create fault w
                       \<lparr>ti_giftCardId = gc_id giftCard,
                        ti_establishmentId = ud_establishmentId data,
                        ti_type = UsageTx,
                        ti_amount = ud_amount data,
                        ti_balanceBefore = balanceBefore,
                        ti_balanceAfter = balanceAfter,
                        ti_description = ud_description data\<rparr> of
                  Inl e \<Rightarrow> (Inl e, w)
                | Inr (transaction, w1) \<Rightarrow>
                    (let updates = \<lparr>u_currentBalance = Some balanceAfter,
                                    u_status = (if balanceAfter = 0 then Some Used else None)\<rparr>
                     in (case GiftCardsRepository_update fault w1 (gc_id giftCard) updates of
                           Inl e \<Rightarrow> (Inl e, w1)
                         | Inr w2 \<Rightarrow>
                             (Inr \<lparr>ur_transaction = transaction,
                                   ur_giftCard = merge_updates giftCard updates\<rparr>, w2)))))"

record createGiftCardData =
  cd_franchiseeId :: nat
  cd_establishmentId :: nat
  cd_initialValue :: number
  cd_validUntil :: "timestamp option"

text \<open>
  \<^verbatim>\<open>generateUniqueCode\<close>: \<open>nanoid\<close> is the 16 characters the generator drew.
\<close>

definition generateUniqueCode :: "string \<Rightarrow> string" where
  "generateUniqueCode nanoid =
     ''GC-'' @ take 4 nanoid @ ''-'' @ take 4 (drop 4 nanoid) @ ''-'' @
     take 4 (drop 8 nanoid) @ ''-'' @ take 4 (drop 12 nanoid)"

text \<open>
  Modelled from the spec: the body of \<^verbatim>\<open>validateFranchiseeEstablishment\<close> is not among
  the sources. The spec: "the establishment must belong to that franchise (referential
  hierarchy invariant checked at creation)", a mismatch being answered 422.
\<close>

definition validateFranchiseeEstablishment :: "ledger \<Rightarrow> nat \<Rightarrow> nat \<Rightarrow> exception option" where
  "validateFranchiseeEstablishment w franchiseeId establishmentId =
     (case find (\<lambda>e. est_id e = establishmentId) (establishments w) of
        None \<Rightarrow> Some (BaseException ''Establishment does not belong to franchisee'' 422 None)
      | Some e \<Rightarrow>
          if est_franchiseeId e = franchiseeId then None
          else Some (BaseException ''Establishment does not belong to franchisee'' 422 None))"

text \<open>
  \<^verbatim>\<open>CreateGiftCardService.execute\<close>. \<open>qrCode\<close> is the data URL the QR library renders
  for the code. The \<^verbatim>\<open>code\<close> column is unique, so inserting a code that is already
  there fails.
\<close>

definition CreateGiftCardService_execute ::
  "string \<Rightarrow> string \<Rightarrow> ledger \<Rightarrow> createGiftCardData \<Rightarrow> (exception + giftCard) \<times> ledger" where
  "CreateGiftCardService_execute nanoid qrCode w data =
     (case validateFranchiseeEstablishment w (cd_franchiseeId data) (cd_establishmentId data) of
        Some e \<Rightarrow> (Inl e, w)
      | None \<Rightarrow>
          let code = generateUniqueCode nanoid
          in if findByCode w code \<noteq> None
             then (Inl (Error ''gift_cards: duplicate code'' None), w)
             else
               let giftCard = \<lparr>gc_id = Suc (length (giftCards w)),
                               gc_code = code,
                               gc_qrCode = qrCode,
                               gc_franchiseeId = cd_franchiseeId data,
                               gc_establishmentId = cd_establishmentId data,
                               gc_initialValue = cd_initialValue data,
                               gc_currentBalance = cd_initialValue data,
                               gc_status = Active,
                               gc_validUntil = cd_validUntil data\<rparr>
               in (Inr giftCard, w\<lparr>giftCards := giftCards w @ [giftCard]\<rparr>))"

section \<open>Request validation\<close>


definition rechargeSchema :: "ledger \<Rightarrow> rechargeData \<Rightarrow> bool" where
  "rechargeSchema w data \<longleftrightarrow>
     (case rd_giftCardId data of None \<Rightarrow> True | Some i \<Rightarrow> i \<in> set (map gc_id (giftCards w))) \<and>
     (case rd_code data of None \<Rightarrow> True | Some c \<Rightarrow> length c = 21) \<and>
     rd_establishmentId data \<in> set (map est_id (establishments w)) \<and>
     1 \<le> rd_amount data \<and> rd_amount data \<le> 10000 \<and>
     (case rd_description data of None \<Rightarrow> True | Some d \<Rightarrow> length d \<le> 255)"


text \<open>
  \<^verbatim>\<open>FranchiseeValidator.createSchema\<close>, as far as it concerns the commission:
  \<^verbatim>\<open>commissionRate: vine.number().range([0.1, 50.0])\<close>, the column's default being 5.0.
\<close>

definition commissionRate_in_range :: "franchisee \<Rightarrow> bool" where
  "commissionRate_in_range f \<longleftrightarrow> 1 / 10 \<le> fr_commissionRate f \<and> fr_commissionRate f \<le> 50"

section \<open>Sequences of operations\<close>

text \<open>
  One call of a gift card service: the arguments the environment decides (the time, the
  characters the code generator draws, the rendered QR image, the write that fails) and
  the request body.
\<close>

datatype op =
  Create timestamp string string createGiftCardData
| Recharge db_fault timestamp rechargeData
| Use db_fault timestamp useData

fun step :: "ledger \<Rightarrow> op \<Rightarrow> ledger" where
  "step w (Create now nanoid qrCode data) = snd (CreateGiftCardService_execute nanoid qrCode w data)"
| "step w (Recharge fault now data) = snd (RechargeGiftCardService_execute fault now w data)"
| "step w (Use fault now data) = snd (UseGiftCardService_execute fault now w data)"

fun run :: "ledger \<Rightarrow> op list \<Rightarrow> ledger" where
  "run w [] = w"
| "run w (x # xs) = run (step w x) xs"




section \<open>The payment gateway and the settlement tables\<close>

text \<open>
  What the Asaas client answers is decided outside the platform; each service call that
  talks to the gateway takes the answer as an argument. The requests sent are kept, in
  order, so that a call to the gateway is visible in the state. The repository updates
  of the settlement services are taken to go through.
\<close>

datatype 'a asaas_reply = AsaasOk 'a | AsaasApiError string nat

record customerData =
  cu_name :: string
  cu_email :: string
  cu_cpfCnpj :: string
  cu_phone :: "string option"
  cu_address :: string
  cu_addressNumber :: string
  cu_complement :: "string option"
  cu_province :: string
  cu_city :: string
  cu_state :: string
  cu_postalCode :: string

record creditCard =
  cc_holderName :: string
  cc_number :: string
  cc_expiryMonth :: string
  cc_expiryYear :: string
  cc_ccv :: string

text \<open>
  A JavaScript value as a property lookup on an object literal of strings can give it: a
  string, \<^verbatim>\<open>undefined\<close>, or a member the literal inherits from \<^verbatim>\<open>Object.prototype\<close>
  (a function, or for \<^verbatim>\<open>__proto__\<close> the prototype itself).
\<close>

datatype js_value = JsString string | JsInherited string | JsUndefined

record chargeData =
  ch_customer :: string
  ch_billingType :: js_value
  ch_value :: number
  ch_dueDate :: timestamp
  ch_description :: string
  ch_externalReference :: string
  ch_creditCard :: "creditCard option"

record asaasCharge =
  ac_id :: string
  ac_status :: string

datatype asaas_request = CreateCustomerRequest customerData | CreateChargeRequest chargeData

record asaasPayment =
  pay_id :: string
  pay_value :: number
  pay_status :: string
  pay_externalReference :: "string option"
  pay_confirmedDate :: "timestamp option"
  pay_clientPaymentDate :: "timestamp option"

record webhookData =
  wd_event :: string
  wd_payment :: asaasPayment

record paymentWebhook =
  wh_id :: nat
  wh_payload :: webhookData
  wh_processedAt :: "timestamp option"

datatype notification = PaymentConfirmation nat | OverdueNotification nat

record platform =
  db :: ledger
  paymentWebhooks :: "paymentWebhook list"
  asaasRequests :: "asaas_request list"
  notifications :: "notification list"

text \<open>A string is truthy when it is there and not empty.\<close>

definition truthy_string :: "string option \<Rightarrow> bool" where
  "truthy_string s = (case s of None \<Rightarrow> False | Some x \<Rightarrow> x \<noteq> [])"

section \<open>Customer management\<close>

definition EstablishmentRepository_update :: "platform \<Rightarrow> nat \<Rightarrow> string \<Rightarrow> platform" where
  "EstablishmentRepository_update s i customerId =
     s\<lparr>db := (db s)\<lparr>establishments :=
          map (\<lambda>e. if est_id e = i then e\<lparr>est_asaasCustomerId := Some customerId\<rparr> else e)
            (establishments (db s))\<rparr>\<rparr>"

text \<open>
  \<^verbatim>\<open>CreateCustomerService.execute\<close>. \<open>reply\<close> is the id of the customer the gateway
  creates, or its error.
\<close>

definition CreateCustomerService_execute ::
  "string asaas_reply \<Rightarrow> platform \<Rightarrow> establishment \<Rightarrow> (exception + string) \<times> platform" where
  "CreateCustomerService_execute reply s establishment =
     (if truthy_string (est_asaasCustomerId establishment)
      then (Inr (the (est_asaasCustomerId establishment)), s)
      else
        let customerData =
              \<lparr>cu_name = est_name establishment,
               cu_email = usr_email (est_user establishment),
               cu_cpfCnpj = est_cnpj establishment,
               cu_phone = usr_phone (est_user establishment),
               cu_address = addr_street (est_address establishment),
               cu_addressNumber = addr_number (est_address establishment),
               cu_complement = addr_complement (est_address establishment),
               cu_province = addr_neighborhood (est_address establishment),
               cu_city = addr_city (est_address establishment),
               cu_state = addr_state (est_address establishment),
               cu_postalCode = addr_zipCode (est_address establishment)\<rparr>;
            s1 = s\<lparr>asaasRequests := asaasRequests s @ [CreateCustomerRequest customerData]\<rparr>
        in (case reply of
              AsaasApiError m c \<Rightarrow> (Inl (Error m None), s1)
            | AsaasOk customer_id \<Rightarrow>
                (Inr customer_id, EstablishmentRepository_update s1 (est_id establishment) customer_id)))"

text \<open>
  Modelled from the spec: \<^verbatim>\<open>customerService.ensureCustomer\<close> is not among the sources.
  The spec: the charge is created "against the establishment's registered customer
  record (creating that customer record first if absent)", which is what
  \<^verbatim>\<open>CreateCustomerService.execute\<close> does.
\<close>

definition ensureCustomer ::
  "string asaas_reply \<Rightarrow> platform \<Rightarrow> establishment \<Rightarrow> (exception + string) \<times> platform" where
  "ensureCustomer = CreateCustomerService_execute"

section \<open>Commission charging\<close>

text \<open>The decimal digits of a number, as a template literal renders it.\<close>

function string_of_nat :: "nat \<Rightarrow> string" where
  "string_of_nat n =
     (if n < 10 then [''0123456789'' ! n]
      else string_of_nat (n div 10) @ [''0123456789'' ! (n mod 10)])"
  by pat_completeness auto
termination
  by (relation "measure id") auto

declare string_of_nat.simps [simp del]

text \<open>
  The names every object literal inherits from \<^verbatim>\<open>Object.prototype\<close>: a lookup of one
  of them on the literal finds the inherited member.
\<close>

definition Object_prototype :: "string list" where
  "Object_prototype =
     [''constructor'', ''__defineGetter__'', ''__defineSetter__'', ''hasOwnProperty'',
      ''__lookupGetter__'', ''__lookupSetter__'', ''isPrototypeOf'', ''propertyIsEnumerable'',
      ''toString'', ''valueOf'', ''__proto__'', ''toLocaleString'']"

definition property_get :: "(string \<times> string) list \<Rightarrow> string \<Rightarrow> js_value" where
  "property_get obj key =
     (case map_of obj key of
        Some v \<Rightarrow> JsString v
      | None \<Rightarrow> if key \<in> set Object_prototype then JsInherited key else JsUndefined)"

fun truthy :: "js_value \<Rightarrow> bool" where
  "truthy (JsString s) = (s \<noteq> [])"
| "truthy (JsInherited k) = True"
| "truthy JsUndefined = False"

definition mapping :: "(string \<times> string) list" where
  "mapping = [(''ticket'', ''BOLETO''), (''pix'', ''PIX''), (''credit_card'', ''CREDIT_CARD'')]"

text \<open>\<^verbatim>\<open>mapPaymentMethod\<close>: \<^verbatim>\<open>mapping[method] || 'PIX'\<close>.\<close>

definition mapPaymentMethod :: "string \<Rightarrow> js_value" where
  "mapPaymentMethod method =
     (if truthy (property_get mapping method) then property_get mapping method else JsString ''PIX'')"

record commission_updates =
  cup_asaasChargeId :: "string option"
  cup_paymentMethod :: "string option"
  cup_status :: "commission_status option"
  cup_paidAt :: "timestamp option option"

definition merge_commission :: "commission \<Rightarrow> commission_updates \<Rightarrow> commission" where
  "merge_commission c u =
     c\<lparr>com_asaasChargeId := (case cup_asaasChargeId u of None \<Rightarrow> com_asaasChargeId c | Some x \<Rightarrow> Some x),
       com_paymentMethod := (case cup_paymentMethod u of None \<Rightarrow> com_paymentMethod c | Some x \<Rightarrow> Some x),
       com_status := (case cup_status u of None \<Rightarrow> com_status c | Some x \<Rightarrow> x),
       com_paidAt := (case cup_paidAt u of None \<Rightarrow> com_paidAt c | Some x \<Rightarrow> x)\<rparr>"

definition no_updates :: commission_updates where
  "no_updates = \<lparr>cup_asaasChargeId = None, cup_paymentMethod = None, cup_status = None, cup_paidAt = None\<rparr>"

definition CommissionRepository_update :: "platform \<Rightarrow> nat \<Rightarrow> commission_updates \<Rightarrow> platform" where
  "CommissionRepository_update s i u =
     s\<lparr>db := (db s)\<lparr>commissions :=
          map (\<lambda>c. if com_id c = i then merge_commission c u else c) (commissions (db s))\<rparr>\<rparr>"

text \<open>
  The argument of the charge service: the commission as loaded with its relations (its
  establishment), the payment method, the due date and the card, if any.
\<close>

record chargeCommissionData =
  chg_commission :: commission
  chg_establishment :: establishment
  chg_paymentMethod :: string
  chg_dueDate :: timestamp
  chg_creditCard :: "creditCard option"

text \<open>
  \<^verbatim>\<open>CreateCommissionChargeService.execute\<close>. \<open>customer_reply\<close> and \<open>charge_reply\<close> are
  the gateway's answers to the customer and the charge request. The date
  \<^verbatim>\<open>format(dueDate, 'yyyy-MM-dd')\<close> renders is kept as the instant.
\<close>

definition CreateCommissionChargeService_execute ::
  "string asaas_reply \<Rightarrow> asaasCharge asaas_reply \<Rightarrow> platform \<Rightarrow> chargeCommissionData \<Rightarrow>
   (exception + asaasCharge) \<times> platform" where
  "CreateCommissionChargeService_execute customer_reply charge_reply s data =
     (let commission = chg_commission data;
          paymentMethod = chg_paymentMethod data
      in (case ensureCustomer customer_reply s (chg_establishment data) of
            (Inl e, s1) \<Rightarrow> (Inl e, s1)
          | (Inr customerId, s1) \<Rightarrow>
              (let chargeData =
                     \<lparr>ch_customer = customerId,
                      ch_billingType = mapPaymentMethod paymentMethod,
                      ch_value = com_amount commission,
                      ch_dueDate = chg_dueDate data,
                      ch_description = ''Commission payment - '' @ string_of_nat (com_id commission),
                      ch_externalReference = ''commission_'' @ string_of_nat (com_id commission),
                      ch_creditCard =
                        (if paymentMethod = ''credit_card'' then chg_creditCard data else None)\<rparr>;
                   s2 = s1\<lparr>asaasRequests := asaasRequests s1 @ [CreateChargeRequest chargeData]\<rparr>
               in (case charge_reply of
                     AsaasApiError m c \<Rightarrow> (Inl (Error m None), s2)
                   | AsaasOk charge \<Rightarrow>
                       (Inr charge,
                        CommissionRepository_update s2 (com_id commission)
                          \<lparr>cup_asaasChargeId = Some (ac_id charge),
                           cup_paymentMethod = Some paymentMethod,
                           cup_status = Some Charged,
                           cup_paidAt = None\<rparr>)))))"

record commissionChargeJobData =
  jd_commissionId :: nat
  jd_paymentMethod :: string
  jd_dueDate :: timestamp
  jd_creditCard :: "creditCard option"

text \<open>
  \<^verbatim>\<open>CommissionChargeJob.handle\<close>: whatever is thrown inside the \<^verbatim>\<open>try\<close> (the commission
  is not found, its establishment is missing, the gateway refuses) marks the commission
  \<open>failed\<close> and is thrown again for the queue to retry.
\<close>

definition CommissionChargeJob_handle ::
  "string asaas_reply \<Rightarrow> asaasCharge asaas_reply \<Rightarrow> platform \<Rightarrow> commissionChargeJobData \<Rightarrow>
   exception option \<times> platform" where
  "CommissionChargeJob_handle customer_reply charge_reply s job =
     (let commissionId = jd_commissionId job;
          attempt =
            (case find (\<lambda>c. com_id c = commissionId) (commissions (db s)) of
               None \<Rightarrow> (Inl (Error (''Commission '' @ string_of_nat commissionId @ '' not found'') None), s)
             | Some commission \<Rightarrow>
                 (case find (\<lambda>e. est_id e = com_establishmentId commission) (establishments (db s)) of
                    None \<Rightarrow> (Inl (Error ''TypeError: establishment is null'' None), s)
                  | Some establishment \<Rightarrow>
                      CreateCommissionChargeService_execute customer_reply charge_reply s
                        \<lparr>chg_commission = commission,
                         chg_establishment = establishment,
                         chg_paymentMethod = jd_paymentMethod job,
                         chg_dueDate = jd_dueDate job,
                         chg_creditCard = jd_creditCard job\<rparr>))
      in (case attempt of
            (Inr charge, s1) \<Rightarrow> (None, s1)
          | (Inl error, s1) \<Rightarrow>
              (Some error, CommissionRepository_update s1 commissionId (no_updates\<lparr>cup_status := Some Failed\<rparr>))))"

section \<open>Webhook processing\<close>

text \<open>
  Modelled from the spec: \<^verbatim>\<open>findCommissionByPayment\<close> is not among the sources. The
  spec: "Commission lookup by gateway charge reference or by an externally-supplied
  correlation token"; the token is the \<^verbatim>\<open>externalReference\<close> the charge was created
  with, \<^verbatim>\<open>commission_<id>\<close>.
\<close>

definition findCommissionByPayment :: "platform \<Rightarrow> asaasPayment \<Rightarrow> commission option" where
  "findCommissionByPayment s payment =
     (case find (\<lambda>c. com_asaasChargeId c = Some (pay_id payment)) (commissions (db s)) of
        Some c \<Rightarrow> Some c
      | None \<Rightarrow>
          find (\<lambda>c. pay_externalReference payment = Some (''commission_'' @ string_of_nat (com_id c)))
            (commissions (db s)))"

text \<open>
  \<^verbatim>\<open>DateTime.fromISO(payment.confirmedDate || payment.clientPaymentDate)\<close>; the dates
  are kept as the instants they denote, an absent or empty one as \<open>None\<close>.
\<close>

definition paidAt_of :: "asaasPayment \<Rightarrow> timestamp option" where
  "paidAt_of payment =
     (case pay_confirmedDate payment of Some t \<Rightarrow> Some t | None \<Rightarrow> pay_clientPaymentDate payment)"

definition handlePaymentSuccess :: "platform \<Rightarrow> commission \<Rightarrow> asaasPayment \<Rightarrow> platform" where
  "handlePaymentSuccess s commission payment =
     (let s1 = CommissionRepository_update s (com_id commission)
                 (no_updates\<lparr>cup_status := Some Paid, cup_paidAt := Some (paidAt_of payment)\<rparr>)
      in s1\<lparr>notifications := notifications s1 @ [PaymentConfirmation (com_id commission)]\<rparr>)"

definition handlePaymentOverdue :: "platform \<Rightarrow> commission \<Rightarrow> asaasPayment \<Rightarrow> platform" where
  "handlePaymentOverdue s commission payment =
     s\<lparr>notifications := notifications s @ [OverdueNotification (com_id commission)]\<rparr>"

text \<open>
  Modelled from the spec: \<^verbatim>\<open>handlePaymentCancellation\<close> is called but not defined in
  the sources. The spec: deletion and refund events "transition to \<open>failed\<close> (cancels
  the obligation) regardless of current status, provided it is not already \<open>paid\<close>".
\<close>

definition handlePaymentCancellation :: "platform \<Rightarrow> commission \<Rightarrow> asaasPayment \<Rightarrow> platform" where
  "handlePaymentCancellation s commission payment =
     (if com_status commission = Paid then s
      else CommissionRepository_update s (com_id commission) (no_updates\<lparr>cup_status := Some Failed\<rparr>))"

text \<open>\<^verbatim>\<open>ProcessWebhookService.execute\<close>.\<close>

definition ProcessWebhookService_execute :: "platform \<Rightarrow> webhookData \<Rightarrow> platform" where
  "ProcessWebhookService_execute s webhookData =
     (let event = wd_event webhookData; payment = wd_payment webhookData
      in (case findCommissionByPayment s payment of
            None \<Rightarrow> s
          | Some commission \<Rightarrow>
              if event = ''PAYMENT_CONFIRMED'' \<or> event = ''PAYMENT_RECEIVED''
              then handlePaymentSuccess s commission payment
              else if event = ''PAYMENT_OVERDUE''
              then handlePaymentOverdue s commission payment
              else if event = ''PAYMENT_DELETED'' \<or> event = ''PAYMENT_REFUNDED''
              then handlePaymentCancellation s commission payment
              else s))"

text \<open>\<^verbatim>\<open>ProcessWebhookJob.handle\<close>, run at time \<open>now\<close>.\<close>

definition ProcessWebhookJob_handle :: "timestamp \<Rightarrow> platform \<Rightarrow> nat \<Rightarrow> platform" where
  "ProcessWebhookJob_handle now s webhookId =
     (case find (\<lambda>h. wh_id h = webhookId) (paymentWebhooks s) of
        None \<Rightarrow> s
      | Some webhook \<Rightarrow>
          if wh_processedAt webhook \<noteq> None then s
          else
            (let s1 = ProcessWebhookService_execute s (wh_payload webhook)
             in s1\<lparr>paymentWebhooks :=
                    map (\<lambda>h. if wh_id h = webhookId then h\<lparr>wh_processedAt := Some now\<rparr> else h)
                      (paymentWebhooks s1)\<rparr>))"

section \<open>The commission state machine, as the specification draws it\<close>

fun spec_transition :: "commission_status \<Rightarrow> commission_status \<Rightarrow> bool" where
  "spec_transition Pending Charged = True"
| "spec_transition Pending Failed = True"
| "spec_transition Charged Paid = True"
| "spec_transition Charged Failed = True"
| "spec_transition Failed Charged = True"
| "spec_transition a b = False"

definition commission_status_of :: "platform \<Rightarrow> nat \<Rightarrow> commission_status option" where
  "commission_status_of s i =
     map_option com_status (find (\<lambda>c. com_id c = i) (commissions (db s)))"

text \<open>One run of a settlement service or job, with what the gateway answers it.\<close>

datatype settlement_op =
  RequestCharge "string asaas_reply" "asaasCharge asaas_reply" chargeCommissionData
| ChargeJob "string asaas_reply" "asaasCharge asaas_reply" commissionChargeJobData
| Webhook webhookData
| WebhookJob timestamp nat

fun settle :: "platform \<Rightarrow> settlement_op \<Rightarrow> platform" where
  "settle s (RequestCharge customer_reply charge_reply data) =
     snd (CreateCommissionChargeService_execute customer_reply charge_reply s data)"
| "settle s (ChargeJob customer_reply charge_reply job) =
     snd (CommissionChargeJob_handle customer_reply charge_reply s job)"
| "settle s (Webhook webhookData) = ProcessWebhookService_execute s webhookData"
| "settle s (WebhookJob now webhookId) = ProcessWebhookJob_handle now s webhookId"

fun settle_all :: "platform \<Rightarrow> settlement_op list \<Rightarrow> platform" where
  "settle_all s [] = s"
| "settle_all s (x # xs) = settle_all (settle s x) xs"

text \<open>What \<^verbatim>\<open>handlePaymentSuccess\<close> writes into the commission.\<close>

definition paid_update :: "asaasPayment \<Rightarrow> commission_updates" where
  "paid_update p = no_updates\<lparr>cup_status := Some Paid, cup_paidAt := Some (paidAt_of p)\<rparr>"

section \<open>Ledger invariants\<close>

text \<open>The transactions of one gift card, oldest first.\<close>

definition card_transactions :: "ledger \<Rightarrow> nat \<Rightarrow> transaction list" where
  "card_transactions w i = filter (\<lambda>t. tx_giftCardId t = i) (transactions w)"

text \<open>Each transaction starts from the balance the one before it left.\<close>

fun linked :: "transaction list \<Rightarrow> bool" where
  "linked [] = True"
| "linked [t] = True"
| "linked (t # u # ts) = (tx_balanceAfter t = tx_balanceBefore u \<and> linked (u # ts))"

definition tx_arith :: "transaction \<Rightarrow> bool" where
  "tx_arith t =
     (case tx_type t of
        RechargeTx \<Rightarrow> tx_balanceAfter t = tx_balanceBefore t + tx_amount t
      | UsageTx \<Rightarrow> tx_balanceAfter t = tx_balanceBefore t - tx_amount t
      | RefundTx \<Rightarrow> True)"

definition chain_ok :: "ledger \<Rightarrow> giftCard \<Rightarrow> bool" where
  "chain_ok w g =
     (let ts = card_transactions w (gc_id g)
      in linked ts \<and> (ts = [] \<or> tx_balanceAfter (last ts) = gc_currentBalance g) \<and>
         list_all tx_arith ts)"

definition ledger_chain :: "ledger \<Rightarrow> bool" where
  "ledger_chain w = list_all (chain_ok w) (giftCards w)"

text \<open>
  Card ids are serial numbers: distinct, none beyond the number of cards, and every
  transaction belongs to a card that exists.
\<close>

definition serial_ids :: "ledger \<Rightarrow> bool" where
  "serial_ids w \<longleftrightarrow>
     distinct (map gc_id (giftCards w)) \<and>
     list_all (\<lambda>g. gc_id g \<le> length (giftCards w)) (giftCards w) \<and>
     list_all (\<lambda>t. tx_giftCardId t \<le> length (giftCards w)) (transactions w)"

definition ledger_inv :: "ledger \<Rightarrow> bool" where
  "ledger_inv w \<longleftrightarrow> serial_ids w \<and> ledger_chain w"

text \<open>The operation's write to the gift card row goes through.\<close>

fun update_succeeds :: "op \<Rightarrow> bool" where
  "update_succeeds (Create now nanoid qrCode data) = True"
| "update_succeeds (Recharge fault now data) = (fault \<noteq> FailGiftCardUpdate)"
| "update_succeeds (Use fault now data) = (fault \<noteq> FailGiftCardUpdate)"

section \<open>A small franchise\<close>

text \<open>One franchisee at 5.25 %, one establishment of it, no cards yet.\<close>

definition franchise1 :: franchisee where
  "franchise1 = \<lparr>fr_id = 1, fr_commissionRate = 21 / 4\<rparr>"

definition salon :: establishment where
  "salon = \<lparr>est_id = 1, est_franchiseeId = 1, est_name = ''Salon ABC'',
            est_cnpj = ''12.345.678/0001-90'',
            est_user = \<lparr>usr_email = ''salon@abc.com'', usr_phone = None\<rparr>,
            est_address = \<lparr>addr_street = ''Business Avenue'', addr_number = ''123'',
                           addr_complement = None, addr_neighborhood = ''Centro'',
                           addr_city = ''Sao Paulo'', addr_state = ''SP'',
                           addr_zipCode = ''01234-567''\<rparr>,
            est_asaasCustomerId = None\<rparr>"

definition ledger0 :: ledger where
  "ledger0 = \<lparr>franchisees = [franchise1], establishments = [salon], giftCards = [],
              transactions = [], commissions = []\<rparr>"

definition create100 :: op where
  "create100 = Create 0 ''ABCDEFGHIJKLMNOP'' ''data:image/png;base64,iVBOR''
     \<lparr>cd_franchiseeId = 1, cd_establishmentId = 1, cd_initialValue = 100, cd_validUntil = None\<rparr>"

definition recharge_req :: "number \<Rightarrow> rechargeData" where
  "recharge_req a = \<lparr>rd_giftCardId = Some 1, rd_code = None, rd_establishmentId = 1,
                     rd_amount = a, rd_description = None\<rparr>"

definition use_req :: "number \<Rightarrow> useData" where
  "use_req a = \<lparr>ud_giftCardId = Some 1, ud_code = None, ud_establishmentId = 1,
                ud_amount = a, ud_description = None\<rparr>"

text \<open>The ledger after a card of 100 was created and recharged by 50.\<close>

definition ledger1 :: ledger where
  "ledger1 = run ledger0 [create100, Recharge NoFault 0 (recharge_req 50)]"

definition card1 :: giftCard where
  "card1 = \<lparr>gc_id = 1, gc_code = ''GC-ABCD-EFGH-IJKL-MNOP'',
            gc_qrCode = ''data:image/png;base64,iVBOR'', gc_franchiseeId = 1,
            gc_establishmentId = 1, gc_initialValue = 100, gc_currentBalance = 150,
            gc_status = Active, gc_validUntil = None\<rparr>"

definition tx1 :: transaction where
  "tx1 = \<lparr>tx_id = 1, tx_giftCardId = 1, tx_establishmentId = 1, tx_type = RechargeTx,
          tx_amount = 50, tx_balanceBefore = 100, tx_balanceAfter = 150,
          tx_description = None\<rparr>"

definition com1 :: commission where
  "com1 = \<lparr>com_id = 1, com_franchiseeId = 1, com_establishmentId = 1, com_transactionId = 1,
           com_amount = 21 / 8, com_rate = 21 / 4, com_status = Pending,
           com_asaasChargeId = None, com_paymentMethod = None, com_paidAt = None\<rparr>"

text \<open>The rows the sequel expects: a use of 150, and a recharge of 3.\<close>

definition tx2 :: transaction where
  "tx2 = \<lparr>tx_id = 2, tx_giftCardId = 1, tx_establishmentId = 1, tx_type = UsageTx,
          tx_amount = 150, tx_balanceBefore = 150, tx_balanceAfter = 0,
          tx_description = None\<rparr>"

definition card1_used :: giftCard where
  "card1_used = card1\<lparr>gc_currentBalance := 0, gc_status := Used\<rparr>"

definition ledger2 :: ledger where
  "ledger2 = ledger1\<lparr>giftCards := [card1_used], transactions := [tx1, tx2]\<rparr>"

definition tx3 :: transaction where
  "tx3 = \<lparr>tx_id = 2, tx_giftCardId = 1, tx_establishmentId = 1, tx_type = RechargeTx,
          tx_amount = 3, tx_balanceBefore = 150, tx_balanceAfter = 153,
          tx_description = None\<rparr>"

definition com3 :: commission where
  "com3 = \<lparr>com_id = 2, com_franchiseeId = 1, com_establishmentId = 1, com_transactionId = 2,
           com_amount = 5674535530486825 / 36028797018963968, com_rate = 21 / 4,
           com_status = Pending,
           com_asaasChargeId = None, com_paymentMethod = None, com_paidAt = None\<rparr>"

definition ledger3 :: ledger where
  "ledger3 = ledger1\<lparr>giftCards := [card1\<lparr>gc_currentBalance := 153\<rparr>],
                     transactions := [tx1, tx3], commissions := [com1, com3]\<rparr>"

definition create200 :: op where
  "create200 = Create 0 ''QRSTUVWXYZ012345'' ''data:image/png;base64,iVBOS''
     \<lparr>cd_franchiseeId = 1, cd_establishmentId = 1, cd_initialValue = 200, cd_validUntil = None\<rparr>"

text \<open>
  The platform once the card of \<open>ledger1\<close> was recharged: the commission of that
  recharge is pending, the salon is not yet a customer of the gateway.
\<close>

definition platform0 :: platform where
  "platform0 = \<lparr>db = ledger1, paymentWebhooks = [], asaasRequests = [], notifications = []\<rparr>"

definition salon_customer :: customerData where
  "salon_customer =
     \<lparr>cu_name = ''Salon ABC'', cu_email = ''salon@abc.com'', cu_cpfCnpj = ''12.345.678/0001-90'',
      cu_phone = None, cu_address = ''Business Avenue'', cu_addressNumber = ''123'',
      cu_complement = None, cu_province = ''Centro'', cu_city = ''Sao Paulo'', cu_state = ''SP'',
      cu_postalCode = ''01234-567''\<rparr>"

definition salon_registered :: establishment where
  "salon_registered = salon\<lparr>est_asaasCustomerId := Some ''cus_000005219613''\<rparr>"

text \<open>The same once the salon was registered at the gateway.\<close>

definition platform_registered :: platform where
  "platform_registered =
     platform0\<lparr>db := ledger1\<lparr>establishments := [salon_registered]\<rparr>,
               asaasRequests := [CreateCustomerRequest salon_customer]\<rparr>"

definition charge1 :: asaasCharge where
  "charge1 = \<lparr>ac_id = ''pay_123456789'', ac_status = ''PENDING''\<rparr>"

definition charge_request :: "commission \<Rightarrow> string \<Rightarrow> chargeCommissionData" where
  "charge_request c method =
     \<lparr>chg_commission = c, chg_establishment = salon_registered, chg_paymentMethod = method,
      chg_dueDate = 1736899200, chg_creditCard = None\<rparr>"

definition com1_charged :: commission where
  "com1_charged = com1\<lparr>com_status := Charged, com_asaasChargeId := Some ''pay_123456789'',
                       com_paymentMethod := Some ''pix''\<rparr>"

definition com1_paid :: commission where
  "com1_paid = com1_charged\<lparr>com_status := Paid, com_paidAt := Some 1736899999\<rparr>"

definition confirmed :: webhookData where
  "confirmed =
     \<lparr>wd_event = ''PAYMENT_CONFIRMED'',
      wd_payment = \<lparr>pay_id = ''pay_123456789'', pay_value = 21 / 8, pay_status = ''RECEIVED'',
                    pay_externalReference = Some ''commission_1'',
                    pay_confirmedDate = Some 1736899999, pay_clientPaymentDate = None\<rparr>\<rparr>"

text \<open>The commission charged, with the confirmation webhook stored and not yet processed.\<close>

definition platform_charged :: platform where
  "platform_charged =
     platform_registered\<lparr>db := ledger1\<lparr>establishments := [salon_registered],
                                         commissions := [com1_charged]\<rparr>,
                         paymentWebhooks :=
                           [\<lparr>wh_id = 1, wh_payload = confirmed, wh_processedAt = None\<rparr>]\<rparr>"

definition platform_paid :: platform where
  "platform_paid =
     platform_registered\<lparr>db := ledger1\<lparr>establishments := [salon_registered],
                                         commissions := [com1_paid]\<rparr>\<rparr>"

section \<open>Rounding, as the specification names it\<close>

text \<open>
  The specification's \<open>round\<close>, in its two readings: to the nearest integer
  (\<^verbatim>\<open>Math.round\<close>, halves up) and to the nearest cent.
\<close>

definition Math_round :: "number \<Rightarrow> int" where
  "Math_round x = \<lfloor>x + 1 / 2\<rfloor>"

definition round_cents :: "number \<Rightarrow> number" where
  "round_cents x = of_int (Math_round (x * 100)) / 100"

section \<open>Properties of the ledger\<close>

lemma validate_Inr:
  "validateGiftCard now w r = Inr g \<Longrightarrow> resolve w r = Some g \<and> gc_status g = Active"
  by (auto simp: validateGiftCard_def split: option.splits if_splits)

lemma resolve_mem: "resolve w r = Some g \<Longrightarrow> g \<in> set (giftCards w)"
  by (auto simp: resolve_def findById_def findByCode_def find_Some_iff split: card_ref.splits)

lemma linked_snoc:
  "linked (ts @ [t]) = (linked ts \<and> (ts = [] \<or> tx_balanceAfter (last ts) = tx_balanceBefore t))"
  by (induction ts rule: linked.induct) auto

text \<open>The effect of a balance change that wrote both rows.\<close>

lemma applied_ledger_inv:
  assumes i: "ledger_inv w" and g: "g \<in> set (giftCards w)"
    and t: "tx_giftCardId t = gc_id g" "tx_balanceBefore t = gc_currentBalance g" "tx_arith t"
    and u: "u_currentBalance u = Some (tx_balanceAfter t)"
    and tr: "transactions w' = transactions w @ [t]"
    and gcs: "giftCards w' = map (\<lambda>c. if gc_id c = gc_id g then merge_updates c u else c) (giftCards w)"
  shows "ledger_inv w'"
proof -
  have ids: "map gc_id (giftCards w') = map gc_id (giftCards w)"
    unfolding gcs by (simp add: merge_updates_def comp_def if_distrib cong: if_cong)
  have len: "length (giftCards w') = length (giftCards w)" unfolding gcs by simp
  have d: "distinct (map gc_id (giftCards w))" using i by (simp add: ledger_inv_def serial_ids_def)
  have bound: "\<forall>c\<in>set (giftCards w'). gc_id c \<le> length (giftCards w)"
  proof
    fix c assume "c \<in> set (giftCards w')"
    then have "gc_id c \<in> set (map gc_id (giftCards w'))" by force
    then have "gc_id c \<in> set (map gc_id (giftCards w))" unfolding ids .
    then obtain c0 where "c0 \<in> set (giftCards w)" "gc_id c0 = gc_id c" by auto
    then show "gc_id c \<le> length (giftCards w)"
      using i by (auto simp: ledger_inv_def serial_ids_def list_all_iff)
  qed
  have s: "serial_ids w'"
    using i g t(1) bound unfolding serial_ids_def ledger_inv_def ids len tr by (auto simp: list_all_iff)
  have "chain_ok w' c'" if c': "c' \<in> set (giftCards w')" for c'
  proof -
    from c' obtain c where c: "c \<in> set (giftCards w)"
      and c'eq: "c' = (if gc_id c = gc_id g then merge_updates c u else c)"
      unfolding gcs by auto
    have ck: "chain_ok w c" using i c by (simp add: ledger_inv_def ledger_chain_def list_all_iff)
    show ?thesis
    proof (cases "gc_id c = gc_id g")
      case True
      then have "c = g" using d c g by (meson distinct_map inj_onD)
      then show ?thesis using ck c'eq True t u tr
        by (auto simp: chain_ok_def card_transactions_def Let_def linked_snoc merge_updates_def)
    next
      case False
      then show ?thesis using ck c'eq t tr
        by (auto simp: chain_ok_def card_transactions_def Let_def)
    qed
  qed
  then show ?thesis using s by (simp add: ledger_inv_def ledger_chain_def list_all_iff)
qed

lemma step_ledger_inv: "ledger_inv w \<Longrightarrow> update_succeeds x \<Longrightarrow> ledger_inv (step w x)"
proof (cases x)
  case (Create now nanoid qr data)
  assume a: "ledger_inv w" "update_succeeds x"
  show ?thesis
  proof (cases "fst (CreateGiftCardService_execute nanoid qr w data)")
    case (Inl e)
    then have "step w x = w" using Create
      by (auto simp: CreateGiftCardService_execute_def Let_def split: option.splits if_splits)
    then show ?thesis using a by simp
  next
    case (Inr g)
    then have w': "giftCards (step w x) = giftCards w @ [g]" "transactions (step w x) = transactions w"
      and gid: "gc_id g = Suc (length (giftCards w))"
      using Create
      by (auto simp: CreateGiftCardService_execute_def Let_def split: option.splits if_splits)
    have nots: "\<forall>t\<in>set (transactions w). tx_giftCardId t \<noteq> gc_id g"
      using a(1) gid by (auto simp: ledger_inv_def serial_ids_def list_all_iff)
    then have nots': "filter (\<lambda>t. tx_giftCardId t = gc_id g) (transactions w) = []"
      by (simp add: filter_empty_conv)
    have "serial_ids (step w x)"
      using a(1) w' gid by (fastforce simp: ledger_inv_def serial_ids_def list_all_iff)
    moreover have "ledger_chain (step w x)"
      using a(1) w' nots nots'
      by (auto simp: ledger_inv_def ledger_chain_def chain_ok_def card_transactions_def Let_def list_all_iff)
    ultimately show ?thesis by (simp add: ledger_inv_def)
  qed
next
  case (Recharge fault now data)
  assume a: "ledger_inv w" "update_succeeds x"
  show ?thesis
  proof (cases "validateGiftCard now w (id_or_code (rd_giftCardId data) (rd_code data))")
    case (Inl e)
    then show ?thesis using a Recharge by (simp add: RechargeGiftCardService_execute_def)
  next
    case (Inr g)
    then have g: "g \<in> set (giftCards w)" using validate_Inr resolve_mem by blast
    show ?thesis
    proof (cases "fault = FailTransactionCreate")
      case True
      then show ?thesis using a Recharge Inr
        by (simp add: RechargeGiftCardService_execute_def TransactionService_create_def)
    next
      case False
      define t where "t = \<lparr>tx_id = Suc (length (transactions w)),
                 tx_giftCardId = gc_id g,
                 tx_establishmentId = rd_establishmentId data,
                 tx_type = RechargeTx,
                 tx_amount = rd_amount data,
                 tx_balanceBefore = gc_currentBalance g,
                 tx_balanceAfter = gc_currentBalance g + rd_amount data,
                 tx_description = rd_description data\<rparr>"
      define u where "u = \<lparr>u_currentBalance = Some (gc_currentBalance g + rd_amount data), u_status = None\<rparr>"
      have f: "fault \<noteq> FailGiftCardUpdate" using a Recharge by simp
      have "transactions (step w x) = transactions w @ [t] \<and>
            giftCards (step w x) = map (\<lambda>c. if gc_id c = gc_id g then merge_updates c u else c) (giftCards w)"
        using Recharge Inr False f
        by (auto simp: RechargeGiftCardService_execute_def TransactionService_create_def
            GiftCardsRepository_update_def CommissionService_create_def Let_def t_def u_def
            split: option.splits sum.splits)
      then show ?thesis
        using applied_ledger_inv[OF a(1) g, of t u "step w x"]
        by (simp add: t_def u_def tx_arith_def)
    qed
  qed
next
  case (Use fault now data)
  assume a: "ledger_inv w" "update_succeeds x"
  show ?thesis
  proof (cases "validateGiftCard now w (id_or_code (ud_giftCardId data) (ud_code data))")
    case (Inl e)
    then show ?thesis using a Use by (simp add: UseGiftCardService_execute_def)
  next
    case (Inr g)
    then have g: "g \<in> set (giftCards w)" using validate_Inr resolve_mem by blast
    show ?thesis
    proof (cases "fault = FailTransactionCreate \<or> gc_currentBalance g < ud_amount data")
      case True
      then show ?thesis using a Use Inr
        by (auto simp add: UseGiftCardService_execute_def TransactionService_create_def)
    next
      case False
      define t where "t = \<lparr>tx_id = Suc (length (transactions w)),
                 tx_giftCardId = gc_id g,
                 tx_establishmentId = ud_establishmentId data,
                 tx_type = UsageTx,
                 tx_amount = ud_amount data,
                 tx_balanceBefore = gc_currentBalance g,
                 tx_balanceAfter = gc_currentBalance g - ud_amount data,
                 tx_description = ud_description data\<rparr>"
      define u where "u = \<lparr>u_currentBalance = Some (gc_currentBalance g - ud_amount data),
          u_status = (if gc_currentBalance g - ud_amount data = 0 then Some Used else None)\<rparr>"
      have f: "fault \<noteq> FailGiftCardUpdate" using a Use by simp
      have "transactions (step w x) = transactions w @ [t] \<and>
            giftCards (step w x) = map (\<lambda>c. if gc_id c = gc_id g then merge_updates c u else c) (giftCards w)"
        using Use Inr False f
        by (auto simp: UseGiftCardService_execute_def TransactionService_create_def
            GiftCardsRepository_update_def Let_def t_def u_def
            split: option.splits sum.splits)
      then show ?thesis
        using applied_ledger_inv[OF a(1) g, of t u "step w x"]
        by (simp add: t_def u_def tx_arith_def)
    qed
  qed
qed

lemma run_ledger_inv: "ledger_inv w \<Longrightarrow> list_all update_succeeds xs \<Longrightarrow> ledger_inv (run w xs)"
  by (induction xs arbitrary: w) (auto simp: step_ledger_inv)





lemmas service_defs =
  CreateGiftCardService_execute_def RechargeGiftCardService_execute_def
  UseGiftCardService_execute_def validateFranchiseeEstablishment_def generateUniqueCode_def
  validateGiftCard_def resolve_def id_or_code_def findById_def findByCode_def
  TransactionService_create_def GiftCardsRepository_update_def CommissionService_create_def
  merge_updates_def BadRequestException_def NotFoundException_def code_or_def Let_def

lemmas example_defs =
  ledger0_def franchise1_def salon_def create100_def recharge_req_def use_req_def
  card1_def tx1_def com1_def

text \<open>The commissions of the examples, at 5.25 %: of 50, of 3 and of 19.\<close>

lemma commission_of_50: "js_times 50 (js_over (21 / 4) 100) = 21 / 8"
  by code_simp

lemma commission_of_3:
  "js_times 3 (js_over (21 / 4) 100) = 5674535530486825 / 36028797018963968"
  by code_simp

lemma commission_of_19:
  "js_times 19 (js_over (21 / 4) 100) = 8984681256604139 / 9007199254740992"
  by code_simp

lemma ledger1_eq:
  "ledger1 = \<lparr>franchisees = [franchise1], establishments = [salon], giftCards = [card1],
               transactions = [tx1], commissions = [com1]\<rparr>"
  by (simp add: ledger1_def service_defs example_defs commission_of_50)




lemma empty_ledger_inv: "giftCards w = [] \<Longrightarrow> transactions w = [] \<Longrightarrow> ledger_inv w"
  by (simp add: ledger_inv_def serial_ids_def ledger_chain_def)

text \<open>
  When every write to a gift card row goes through, the chain holds: starting from
  empty tables, the transactions of every card, oldest first, are linked (each
  \<open>balanceAfter\<close> is the next \<open>balanceBefore\<close>), the last \<open>balanceAfter\<close> is the card's
  \<open>currentBalance\<close>, and every transaction has \<open>balanceAfter = balanceBefore + amount\<close>
  (recharge) or \<open>balanceBefore - amount\<close> (usage).
\<close>

lemma transaction_chain:
  "giftCards w = [] \<and> transactions w = [] \<and> list_all update_succeeds xs \<longrightarrow>
   ledger_chain (run w xs)"
  using run_ledger_inv [of w xs] empty_ledger_inv [of w] by (auto simp: ledger_inv_def)

text \<open>
  C2 fails on the code: from empty tables, a card of 100 is created and recharged by 50,
  then a use of 150 writes its transaction row and fails to write the gift card row.
  The card's last transaction says \<open>balanceAfter = 0\<close> while its \<open>currentBalance\<close> is
  still 150, so the chain does not end at the card's balance.
\<close>

theorem failed_update_breaks_chain:
  "giftCards ledger0 = [] \<and> transactions ledger0 = [] \<and>
   map tx_balanceAfter
     (card_transactions
        (run ledger0 [create100, Recharge NoFault 0 (recharge_req 50),
                      Use FailGiftCardUpdate 0 (use_req 150)]) 1) = [150, 0] \<and>
   map gc_currentBalance
     (giftCards
        (run ledger0 [create100, Recharge NoFault 0 (recharge_req 50),
                      Use FailGiftCardUpdate 0 (use_req 150)])) = [150] \<and>
   \<not> ledger_chain
       (run ledger0 [create100, Recharge NoFault 0 (recharge_req 50),
                     Use FailGiftCardUpdate 0 (use_req 150)])"
  by (simp add: service_defs example_defs ledger_chain_def chain_ok_def card_transactions_def)

lemmas example_defs2 =
  tx2_def card1_used_def ledger2_def tx3_def com3_def ledger3_def create200_def









text \<open>
  C3 fails on the code: the transaction row and the gift card row are written by two
  separate awaited calls, outside any database transaction. When the second write fails,
  the transaction row stays while the balance is stale (150, with a last transaction
  that says 200, respectively 0), and the chain of transactions no longer ends at
  the card's balance.
\<close>

theorem failed_update_leaves_transaction:
  "RechargeGiftCardService_execute FailGiftCardUpdate 0 ledger1 (recharge_req 50) =
     (Inl (Error ''gift_cards: update failed'' None),
      ledger1\<lparr>transactions := [tx1, tx1\<lparr>tx_id := 2, tx_balanceBefore := 150, tx_balanceAfter := 200\<rparr>]\<rparr>) \<and>
   UseGiftCardService_execute FailGiftCardUpdate 0 ledger1 (use_req 150) =
     (Inl (Error ''gift_cards: update failed'' None), ledger1\<lparr>transactions := [tx1, tx2]\<rparr>) \<and>
   map gc_currentBalance (giftCards (ledger1\<lparr>transactions := [tx1, tx2]\<rparr>)) = [150] \<and>
   \<not> ledger_chain (ledger1\<lparr>transactions := [tx1, tx2]\<rparr>)"
  by (simp add: ledger1_eq service_defs example_defs example_defs2 ledger_chain_def
      chain_ok_def card_transactions_def)

text \<open>
  C5 fails on the code: a use of 200 on a balance of 150 throws
  \<^verbatim>\<open>BadRequestException('Insufficient balance')\<close>, which the exception handler answers
  with status 400 and a body of \<open>code\<close>, \<open>message\<close> and \<open>status\<close> only; the amounts are
  not in it. The ledger is unchanged, as the claim says.
\<close>

theorem insufficient_balance_is_400:
  "UseGiftCardService_execute NoFault 0 ledger1 (use_req 200) =
     (Inl (BaseException ''Insufficient balance'' 400 (Some ''E_BAD_REQUEST'')), ledger1) \<and>
   handle (BaseException ''Insufficient balance'' 400 (Some ''E_BAD_REQUEST'')) =
     Some \<lparr>resp_status = 400,
           resp_body = [(''code'', JString ''E_BAD_REQUEST''),
                        (''message'', JString ''Insufficient balance''),
                        (''status'', JNumber 400)]\<rparr>"
  by (simp add: ledger1_eq service_defs example_defs handle_def toJSON_def)

lemma recharge_success_effect:
  assumes "RechargeGiftCardService_execute fault now w r = (Inr res, w')"
  shows "\<exists>g f. validateGiftCard now w (id_or_code (rd_giftCardId r) (rd_code r)) = Inr g \<and>
           find (\<lambda>f. fr_id f = gc_franchiseeId g) (franchisees w) = Some f \<and>
           commissions w' = commissions w @ [rr_commission res] \<and>
           com_amount (rr_commission res) =
             js_times (rd_amount r) (js_over (fr_commissionRate f) 100) \<and>
           com_rate (rr_commission res) = fr_commissionRate f \<and>
           com_status (rr_commission res) = Pending \<and>
           com_asaasChargeId (rr_commission res) = None \<and>
           com_paidAt (rr_commission res) = None \<and>
           com_transactionId (rr_commission res) = tx_id (rr_transaction res)"
proof (cases "validateGiftCard now w (id_or_code (rd_giftCardId r) (rd_code r))")
  case (Inl e)
  then show ?thesis using assms by (simp add: RechargeGiftCardService_execute_def)
next
  case (Inr g)
  then show ?thesis using assms
    by (auto simp: RechargeGiftCardService_execute_def TransactionService_create_def
        GiftCardsRepository_update_def CommissionService_create_def Let_def
        split: if_splits option.splits)
qed

text \<open>
  C4 (amended). A recharge of amount A that passes the request schema and succeeds, on
  a card whose franchisee has commission rate R (within the validator's range) when the
  recharge runs, adds exactly one commission, whose amount is the double-precision
  product of A and the double-precision quotient \<open>R / 100\<close>, as the code's
  \<^verbatim>\<open>amount * (commissionRate / 100)\<close> computes it, with no rounding to an integer or to
  cents; its rate is R and its status \<open>pending\<close>, it is tied to the recharge's
  transaction and has no gateway charge and no payment date: the service does not call
  the gateway.
\<close>

theorem recharge_commission:
  "rechargeSchema w r \<and> list_all commissionRate_in_range (franchisees w) \<and>
   RechargeGiftCardService_execute fault now w r = (Inr res, w') \<longrightarrow>
   (\<exists>g f. validateGiftCard now w (id_or_code (rd_giftCardId r) (rd_code r)) = Inr g \<and>
      find (\<lambda>f. fr_id f = gc_franchiseeId g) (franchisees w) = Some f \<and>
      commissions w' = commissions w @ [rr_commission res] \<and>
      com_amount (rr_commission res) =
        js_times (rd_amount r) (js_over (fr_commissionRate f) 100) \<and>
      com_rate (rr_commission res) = fr_commissionRate f \<and>
      com_status (rr_commission res) = Pending \<and>
      com_asaasChargeId (rr_commission res) = None \<and>
      com_paidAt (rr_commission res) = None \<and>
      com_transactionId (rr_commission res) = tx_id (rr_transaction res))"
  using recharge_success_effect by blast

lemma recharge3_value:
  "RechargeGiftCardService_execute NoFault 0 ledger1 (recharge_req 3) =
     (Inr \<lparr>rr_transaction = tx3, rr_giftCard = card1, rr_commission = com3\<rparr>, ledger3)"
  by (simp add: ledger1_eq service_defs example_defs example_defs2 commission_of_3)

lemma recharge19_amount:
  "map com_amount
     (commissions (snd (RechargeGiftCardService_execute NoFault 0 ledger1 (recharge_req 19)))) =
   [21 / 8, 8984681256604139 / 9007199254740992]"
  by (simp add: ledger1_eq service_defs example_defs commission_of_19)

theorem recharge_commission_witness:
  "rechargeSchema ledger1 (recharge_req 3) \<and>
   list_all commissionRate_in_range (franchisees ledger1) \<and>
   RechargeGiftCardService_execute NoFault 0 ledger1 (recharge_req 3) =
     (Inr \<lparr>rr_transaction = tx3, rr_giftCard = card1, rr_commission = com3\<rparr>, ledger3) \<and>
   (\<exists>g f. validateGiftCard 0 ledger1
             (id_or_code (rd_giftCardId (recharge_req 3)) (rd_code (recharge_req 3))) = Inr g \<and>
      find (\<lambda>f. fr_id f = gc_franchiseeId g) (franchisees ledger1) = Some f \<and>
      commissions ledger3 = commissions ledger1 @ [com3] \<and>
      com_amount com3 = js_times (rd_amount (recharge_req 3)) (js_over (fr_commissionRate f) 100) \<and>
      com_rate com3 = fr_commissionRate f \<and>
      com_status com3 = Pending \<and>
      com_asaasChargeId com3 = None \<and>
      com_paidAt com3 = None \<and>
      com_transactionId com3 = tx_id tx3) \<and>
   com_amount com3 = 5674535530486825 / 36028797018963968"
proof -
  have h1: "rechargeSchema ledger1 (recharge_req 3)"
    by (simp add: rechargeSchema_def ledger1_eq example_defs)
  have h2: "list_all commissionRate_in_range (franchisees ledger1)"
    by (simp add: commissionRate_in_range_def ledger1_eq example_defs)
  have h3: "com_amount com3 = 5674535530486825 / 36028797018963968"
    by (simp add: com3_def)
  have sel:
    "rr_commission \<lparr>rr_transaction = tx3, rr_giftCard = card1, rr_commission = com3\<rparr> = com3"
    "rr_transaction \<lparr>rr_transaction = tx3, rr_giftCard = card1, rr_commission = com3\<rparr> = tx3"
    by simp_all
  note a = recharge_commission
      [of ledger1 "recharge_req 3" NoFault 0
        "\<lparr>rr_transaction = tx3, rr_giftCard = card1, rr_commission = com3\<rparr>" ledger3,
        unfolded sel]
  show ?thesis using a recharge3_value h1 h2 h3 by blast
qed

text \<open>
  C4 as stated fails: a recharge of 3 at 5.25 % yields a commission of
  0.1575 (the double next to it), which is neither that amount rounded to an integer (0)
  nor rounded to cents (0.16).
\<close>

theorem commission_not_rounded:
  "RechargeGiftCardService_execute NoFault 0 ledger1 (recharge_req 3) =
     (Inr \<lparr>rr_transaction = tx3, rr_giftCard = card1, rr_commission = com3\<rparr>, ledger3) \<and>
   com_amount com3 = 5674535530486825 / 36028797018963968 \<and>
   fr_commissionRate franchise1 = 21 / 4 \<and>
   of_int (Math_round (3 * (21 / 4) / 100)) = (0 :: number) \<and>
   round_cents (3 * (21 / 4) / 100) = 4 / 25 \<and>
   of_int (Math_round (com_amount com3)) = (0 :: number) \<and>
   round_cents (com_amount com3) = 4 / 25 \<and>
   com_amount com3 \<noteq> 0 \<and>
   com_amount com3 \<noteq> 4 / 25"
proof -
  have "Math_round (3 * (21 / 4) / 100) = 0" by (simp add: Math_round_def floor_eq_iff)
  moreover have "Math_round (3 * (21 / 4) / 100 * 100) = 16" by (simp add: Math_round_def floor_eq_iff)
  moreover have "Math_round (5674535530486825 / 36028797018963968) = 0"
    by (simp add: Math_round_def floor_eq_iff)
  moreover have "Math_round (5674535530486825 / 36028797018963968 * 100) = 16"
    by (simp add: Math_round_def floor_eq_iff)
  ultimately show ?thesis
    using recharge3_value by (simp add: round_cents_def com3_def franchise1_def)
qed

section \<open>Properties of the settlement\<close>

lemma find_map_invariant:
  "(\<And>x. P (f x) = P x) \<Longrightarrow> find P (map f xs) = map_option f (find P xs)"
  by (induction xs) auto

lemmas settlement_defs =
  CreateCustomerService_execute_def ensureCustomer_def EstablishmentRepository_update_def
  CreateCommissionChargeService_execute_def CommissionChargeJob_handle_def
  CommissionRepository_update_def merge_commission_def no_updates_def
  findCommissionByPayment_def paidAt_of_def handlePaymentSuccess_def handlePaymentOverdue_def
  handlePaymentCancellation_def ProcessWebhookService_execute_def ProcessWebhookJob_handle_def
  truthy_string_def mapPaymentMethod_def property_get_def mapping_def Object_prototype_def
  commission_status_of_def Let_def

lemmas settlement_examples =
  platform0_def salon_customer_def salon_registered_def platform_registered_def charge1_def
  charge_request_def com1_charged_def com1_paid_def confirmed_def platform_charged_def
  platform_paid_def

lemma string_of_nat_1: "string_of_nat 1 = ''1''" "string_of_nat (Suc 0) = ''1''"
  by (simp_all add: string_of_nat.simps)

lemma customer_exists_noop:
  assumes "est_asaasCustomerId est = Some cid" "cid \<noteq> []"
  shows "CreateCustomerService_execute reply s est = (Inr cid, s)"
  using assms by (simp add: CreateCustomerService_execute_def truthy_string_def)

lemma customer_twice:
  assumes row: "find (\<lambda>e. est_id e = est_id est) (establishments (db s)) = Some est"
    and first: "CreateCustomerService_execute r1 s est = (Inr cid, s1)"
    and cid: "cid \<noteq> []"
  shows "\<exists>est1. find (\<lambda>e. est_id e = est_id est) (establishments (db s1)) = Some est1 \<and>
           CreateCustomerService_execute r2 s1 est1 = (Inr cid, s1)"
proof (cases "truthy_string (est_asaasCustomerId est)")
  case True
  then have "s1 = s" "est_asaasCustomerId est = Some cid"
    using first by (auto simp: CreateCustomerService_execute_def truthy_string_def split: option.splits)
  then show ?thesis using row cid customer_exists_noop by blast
next
  case False
  then obtain s0 where s0: "r1 = AsaasOk cid" "s1 = EstablishmentRepository_update s0 (est_id est) cid"
    "establishments (db s0) = establishments (db s)"
    using first
    by (auto simp: CreateCustomerService_execute_def Let_def split: asaas_reply.splits)
  let ?f = "\<lambda>e. if est_id e = est_id est then e\<lparr>est_asaasCustomerId := Some cid\<rparr> else e"
  have "find (\<lambda>e. est_id e = est_id est) (establishments (db s1)) =
        map_option ?f (find (\<lambda>e. est_id e = est_id est) (establishments (db s)))"
    unfolding s0(2) EstablishmentRepository_update_def
    by (simp add: s0(3) find_map_invariant)
  then have "find (\<lambda>e. est_id e = est_id est) (establishments (db s1)) =
        Some (est\<lparr>est_asaasCustomerId := Some cid\<rparr>)"
    using row by simp
  moreover have "CreateCustomerService_execute r2 s1 (est\<lparr>est_asaasCustomerId := Some cid\<rparr>) = (Inr cid, s1)"
    using cid by (simp add: customer_exists_noop)
  ultimately show ?thesis by blast
qed

text \<open>
  C10. An establishment that has a (non-empty) \<open>asaasCustomerId\<close> gets that id back, and
  the state is untouched: no request to the gateway, no update. Hence running the
  service again on the establishment as it is stored after a first run that returned a
  customer id returns the same id and leaves the state of the first run as it is.
\<close>

theorem customer_creation_idempotent:
  "(est_asaasCustomerId est = Some cid \<and> cid \<noteq> [] \<longrightarrow>
      CreateCustomerService_execute reply s est = (Inr cid, s)) \<and>
   (find (\<lambda>e. est_id e = est_id est') (establishments (db s')) = Some est' \<and>
      CreateCustomerService_execute first_reply s' est' = (Inr cid', after) \<and> cid' \<noteq> [] \<longrightarrow>
      (\<exists>stored. find (\<lambda>e. est_id e = est_id est') (establishments (db after)) = Some stored \<and>
         CreateCustomerService_execute second_reply after stored = (Inr cid', after)))"
  using customer_exists_noop customer_twice by blast

lemma register_value:
  "CreateCustomerService_execute (AsaasOk ''cus_000005219613'') platform0 salon =
     (Inr ''cus_000005219613'', platform_registered)"
  by (simp add: settlement_defs settlement_examples ledger1_eq example_defs)

theorem customer_creation_idempotent_witness:
  "est_asaasCustomerId salon_registered = Some ''cus_000005219613'' \<and> ''cus_000005219613'' \<noteq> [] \<and>
   CreateCustomerService_execute (AsaasApiError ''unused'' 500) platform_registered salon_registered =
     (Inr ''cus_000005219613'', platform_registered) \<and>
   find (\<lambda>e. est_id e = est_id salon) (establishments (db platform0)) = Some salon \<and>
   CreateCustomerService_execute (AsaasOk ''cus_000005219613'') platform0 salon =
     (Inr ''cus_000005219613'', platform_registered) \<and>
   (\<exists>est1. find (\<lambda>e. est_id e = est_id salon) (establishments (db platform_registered)) = Some est1 \<and>
      CreateCustomerService_execute (AsaasOk ''cus_other'') platform_registered est1 =
        (Inr ''cus_000005219613'', platform_registered))"
proof -
  have h1: "est_asaasCustomerId salon_registered = Some ''cus_000005219613'' \<and> ''cus_000005219613'' \<noteq> []"
    by (simp add: salon_registered_def)
  have h2: "find (\<lambda>e. est_id e = est_id salon) (establishments (db platform0)) = Some salon"
    by (simp add: platform0_def ledger1_eq)
  note a = customer_creation_idempotent
    [where est = salon_registered and cid = "''cus_000005219613''"
       and reply = "AsaasApiError ''unused'' 500" and s = platform_registered]
  note b = customer_creation_idempotent
    [where est' = salon and s' = platform0 and first_reply = "AsaasOk ''cus_000005219613''"
       and cid' = "''cus_000005219613''" and after = platform_registered
       and second_reply = "AsaasOk ''cus_other''"]
  show ?thesis using a b h1 h2 register_value by blast
qed

lemma mapPaymentMethod_fallback:
  "method \<notin> {''ticket'', ''pix'', ''credit_card''} \<Longrightarrow> method \<notin> set Object_prototype \<Longrightarrow>
   mapPaymentMethod method = JsString ''PIX''"
  by (simp add: mapPaymentMethod_def property_get_def mapping_def)

text \<open>
  C9 fails on the code for the names an object literal inherits: \<^verbatim>\<open>mapping['toString']\<close>
  is the inherited function, which is truthy, so \<^verbatim>\<open>|| 'PIX'\<close> does not apply and the
  charge request goes out with that function as its \<open>billingType\<close>.
\<close>

theorem inherited_name_is_not_pix:
  "mapPaymentMethod ''toString'' = JsInherited ''toString'' \<and>
   mapPaymentMethod ''boleto'' = JsString ''PIX'' \<and>
   asaasRequests (snd (CreateCommissionChargeService_execute (AsaasOk ''cus_unused'') (AsaasOk charge1)
      platform_registered (charge_request com1 ''toString''))) =
     [CreateCustomerRequest salon_customer,
      CreateChargeRequest
        \<lparr>ch_customer = ''cus_000005219613'', ch_billingType = JsInherited ''toString'',
         ch_value = 21 / 8, ch_dueDate = 1736899200,
         ch_description = ''Commission payment - 1'', ch_externalReference = ''commission_1'',
         ch_creditCard = None\<rparr>]"
  by (simp add: settlement_defs settlement_examples ledger1_eq example_defs string_of_nat_1)

lemma find_commission_update:
  "find (\<lambda>c. com_id c = i) (commissions (db (CommissionRepository_update s j u))) =
   map_option (\<lambda>c. if com_id c = j then merge_commission c u else c)
     (find (\<lambda>c. com_id c = i) (commissions (db s)))"
  by (simp add: CommissionRepository_update_def find_map_invariant merge_commission_def)

lemma status_after_update:
  "commission_status_of (CommissionRepository_update s j u) i =
     (case cup_status u of
        None \<Rightarrow> commission_status_of s i
      | Some st \<Rightarrow> if i = j then map_option (\<lambda>_. st) (commission_status_of s i)
                   else commission_status_of s i)"
proof (cases "find (\<lambda>c. com_id c = i) (commissions (db s))")
  case None
  then show ?thesis
    by (auto simp: commission_status_of_def find_commission_update split: option.splits)
next
  case (Some c)
  then have "com_id c = i" by (auto simp: find_Some_iff)
  then show ?thesis using Some
    by (auto simp: commission_status_of_def find_commission_update merge_commission_def
        split: option.splits)
qed

lemma status_other_tables [simp]:
  "commission_status_of (s\<lparr>asaasRequests := r\<rparr>) i = commission_status_of s i"
  "commission_status_of (s\<lparr>notifications := n\<rparr>) i = commission_status_of s i"
  "commission_status_of (s\<lparr>paymentWebhooks := h\<rparr>) i = commission_status_of s i"
  "commission_status_of (EstablishmentRepository_update s j x) i = commission_status_of s i"
  by (simp_all add: commission_status_of_def EstablishmentRepository_update_def)

lemma customer_status:
  "commission_status_of (snd (CreateCustomerService_execute r s e)) i = commission_status_of s i"
  by (simp add: CreateCustomerService_execute_def Let_def split: asaas_reply.splits)

lemma charge_status:
  "commission_status_of (snd (CreateCommissionChargeService_execute cr chr s data)) i =
     (if (\<exists>cid. fst (ensureCustomer cr s (chg_establishment data)) = Inr cid) \<and>
         (\<exists>charge. chr = AsaasOk charge) \<and> i = com_id (chg_commission data)
      then map_option (\<lambda>_. Charged) (commission_status_of s i)
      else commission_status_of s i)"
proof (cases "ensureCustomer cr s (chg_establishment data)")
  case (Pair r s1)
  have s1: "commission_status_of s1 i = commission_status_of s i"
    using customer_status [of cr s "chg_establishment data" i] Pair
    by (simp add: ensureCustomer_def)
  show ?thesis
  proof (cases r)
    case (Inl e)
    then show ?thesis using Pair s1
      by (simp add: CreateCommissionChargeService_execute_def Let_def)
  next
    case (Inr cid)
    then show ?thesis using Pair s1
      by (cases chr)
        (auto simp: CreateCommissionChargeService_execute_def Let_def status_after_update)
  qed
qed

lemma map_option_const_eq: "map_option (\<lambda>_. a) x = Some b \<longleftrightarrow> x \<noteq> None \<and> a = b"
  by (cases x) auto

lemma charge_no_pending:
  "commission_status_of (snd (CreateCommissionChargeService_execute cr chr s data)) i = Some Pending
   \<Longrightarrow> commission_status_of s i = Some Pending"
  by (auto simp: charge_status map_option_const_eq split: if_splits)

lemma job_status:
  "commission_status_of (snd (CommissionChargeJob_handle cr chr s job)) i =
     (if i = jd_commissionId job
      then map_option (\<lambda>_. if fst (CommissionChargeJob_handle cr chr s job) = None
                            then Charged else Failed) (commission_status_of s i)
      else commission_status_of s i)"
proof (cases "find (\<lambda>c. com_id c = jd_commissionId job) (commissions (db s))")
  case None
  then have "commission_status_of s (jd_commissionId job) = None"
    by (simp add: commission_status_of_def)
  then show ?thesis using None
    by (auto simp: CommissionChargeJob_handle_def Let_def status_after_update no_updates_def)
next
  case (Some c)
  then have c: "com_id c = jd_commissionId job" by (auto simp: find_Some_iff)
  show ?thesis
  proof (cases "find (\<lambda>e. est_id e = com_establishmentId c) (establishments (db s))")
    case None
    then show ?thesis using Some
      by (auto simp: CommissionChargeJob_handle_def Let_def status_after_update no_updates_def
          map_option.compositionality comp_def)
  next
    case (Some e)
    define data where "data = \<lparr>chg_commission = c, chg_establishment = e,
        chg_paymentMethod = jd_paymentMethod job, chg_dueDate = jd_dueDate job,
        chg_creditCard = jd_creditCard job\<rparr>"
    obtain r s1 where ex: "CreateCommissionChargeService_execute cr chr s data = (r, s1)"
      by (cases "CreateCommissionChargeService_execute cr chr s data")
    have st: "commission_status_of s1 i =
        (if (\<exists>cid. fst (ensureCustomer cr s e) = Inr cid) \<and> (\<exists>charge. chr = AsaasOk charge) \<and>
            i = jd_commissionId job
         then map_option (\<lambda>_. Charged) (commission_status_of s i)
         else commission_status_of s i)"
      using charge_status [of cr chr s data i] ex c by (simp add: data_def)
    have ok: "(\<exists>charge. r = Inr charge) \<longleftrightarrow>
        (\<exists>cid. fst (ensureCustomer cr s e) = Inr cid) \<and> (\<exists>charge. chr = AsaasOk charge)"
      using ex
      by (cases "ensureCustomer cr s e"; cases chr)
        (auto simp: CreateCommissionChargeService_execute_def Let_def data_def split: sum.splits)
    have h: "CommissionChargeJob_handle cr chr s job =
        (case r of Inr charge \<Rightarrow> (None, s1)
         | Inl error \<Rightarrow> (Some error, CommissionRepository_update s1 (jd_commissionId job)
               (no_updates\<lparr>cup_status := Some Failed\<rparr>)))"
      using \<open>find (\<lambda>c. com_id c = jd_commissionId job) (commissions (db s)) = Some c\<close> Some ex
      by (simp add: CommissionChargeJob_handle_def Let_def data_def)
    show ?thesis
    proof (cases r)
      case (Inl error)
      then show ?thesis using h st ok
        by (auto simp: status_after_update no_updates_def)
    next
      case (Inr charge)
      then show ?thesis using h st ok by auto
    qed
  qed
qed

lemma found_commission_has_status:
  assumes "findCommissionByPayment s p = Some c"
  shows "commission_status_of s (com_id c) \<noteq> None"
proof -
  have "c \<in> set (commissions (db s))"
    using assms by (auto simp: findCommissionByPayment_def find_Some_iff split: option.splits)
  then have "find (\<lambda>x. com_id x = com_id c) (commissions (db s)) \<noteq> None"
    by (auto simp: find_None_iff)
  then show ?thesis by (simp add: commission_status_of_def)
qed

lemma success_status:
  "commission_status_of (handlePaymentSuccess s c p) i =
     (if i = com_id c then map_option (\<lambda>_. Paid) (commission_status_of s i)
      else commission_status_of s i)"
  by (simp add: handlePaymentSuccess_def Let_def status_after_update no_updates_def)

lemma overdue_status:
  "commission_status_of (handlePaymentOverdue s c p) i = commission_status_of s i"
  by (simp add: handlePaymentOverdue_def)

lemma cancellation_status:
  "commission_status_of (handlePaymentCancellation s c p) i =
     (if com_status c \<noteq> Paid \<and> i = com_id c
      then map_option (\<lambda>_. Failed) (commission_status_of s i)
      else commission_status_of s i)"
  by (simp add: handlePaymentCancellation_def status_after_update no_updates_def)

lemma webhook_cases:
  "ProcessWebhookService_execute s d = s \<or>
   (\<exists>c. ProcessWebhookService_execute s d = handlePaymentSuccess s c (wd_payment d)) \<or>
   (\<exists>c. ProcessWebhookService_execute s d = handlePaymentOverdue s c (wd_payment d)) \<or>
   (\<exists>c. ProcessWebhookService_execute s d = handlePaymentCancellation s c (wd_payment d))"
  by (cases "findCommissionByPayment s (wd_payment d)")
    (auto simp: ProcessWebhookService_execute_def Let_def)

lemma webhook_status:
  assumes "commission_status_of (ProcessWebhookService_execute s d) i = Some Pending"
  shows "commission_status_of s i = Some Pending"
  using webhook_cases [of s d] assms
  by (auto simp: success_status overdue_status cancellation_status map_option_const_eq
      split: if_splits)

lemma webhook_job_status:
  assumes "commission_status_of (ProcessWebhookJob_handle now s i') i = Some Pending"
  shows "commission_status_of s i = Some Pending"
proof (cases "find (\<lambda>h. wh_id h = i') (paymentWebhooks s)")
  case None
  then show ?thesis using assms by (simp add: ProcessWebhookJob_handle_def)
next
  case (Some h)
  then show ?thesis using assms webhook_status [of s "wh_payload h" i]
    by (cases "wh_processedAt h") (simp_all add: ProcessWebhookJob_handle_def Let_def)
qed

lemma settle_no_pending:
  "commission_status_of (settle s x) i = Some Pending \<Longrightarrow> commission_status_of s i = Some Pending"
proof (cases x)
  case (RequestCharge cr chr data)
  then show "commission_status_of (settle s x) i = Some Pending \<Longrightarrow> ?thesis"
    using charge_no_pending by simp
next
  case (ChargeJob cr chr job)
  then show "commission_status_of (settle s x) i = Some Pending \<Longrightarrow> ?thesis"
    by (auto simp: job_status map_option_const_eq split: if_splits)
next
  case (Webhook d)
  then show "commission_status_of (settle s x) i = Some Pending \<Longrightarrow> ?thesis"
    using webhook_status by simp
next
  case (WebhookJob now i')
  then show "commission_status_of (settle s x) i = Some Pending \<Longrightarrow> ?thesis"
    using webhook_job_status by simp
qed

lemma settle_all_no_pending:
  "commission_status_of (settle_all s xs) i = Some Pending \<Longrightarrow>
   commission_status_of s i = Some Pending"
  by (induction xs arbitrary: s) (auto dest: settle_no_pending)

lemma charge_from_any_status:
  "\<exists>s'. CreateCommissionChargeService_execute (AsaasOk cid) (AsaasOk charge) s data = (Inr charge, s') \<and>
     commission_status_of s' (com_id (chg_commission data)) =
       map_option (\<lambda>_. Charged) (commission_status_of s (com_id (chg_commission data)))"
proof -
  have "\<exists>x s1. ensureCustomer (AsaasOk cid) s (chg_establishment data) = (Inr x, s1)"
    by (simp add: ensureCustomer_def CreateCustomerService_execute_def Let_def)
  then obtain x s1 where e: "ensureCustomer (AsaasOk cid) s (chg_establishment data) = (Inr x, s1)"
    by blast
  then obtain s' where
    r: "CreateCommissionChargeService_execute (AsaasOk cid) (AsaasOk charge) s data = (Inr charge, s')"
    by (simp add: CreateCommissionChargeService_execute_def Let_def)
  show ?thesis
    using r e charge_status [of "AsaasOk cid" "AsaasOk charge" s data "com_id (chg_commission data)"]
    by auto
qed

lemma confirmation_from_any_status:
  assumes "findCommissionByPayment s (wd_payment d) = Some c"
    and "wd_event d = ''PAYMENT_CONFIRMED'' \<or> wd_event d = ''PAYMENT_RECEIVED''"
  shows "commission_status_of (ProcessWebhookService_execute s d) (com_id c) = Some Paid"
proof -
  have "ProcessWebhookService_execute s d = handlePaymentSuccess s c (wd_payment d)"
    using assms by (auto simp: ProcessWebhookService_execute_def Let_def)
  then show ?thesis
    using found_commission_has_status [OF assms(1)] by (auto simp: success_status)
qed

lemma job_failure_from_any_status:
  assumes "CommissionChargeJob_handle cr chr s job = (Some e, s')"
  shows "commission_status_of s' (jd_commissionId job) =
         map_option (\<lambda>_. Failed) (commission_status_of s (jd_commissionId job))"
  using assms job_status [of cr chr s job "jd_commissionId job"] by simp

text \<open>
  C6 (amended). No run of the settlement services and jobs brings a commission back to
  \<open>pending\<close>. The services do not look at the current status: a charge request that
  the gateway accepts sets \<open>charged\<close> from any status, a payment confirmation sets
  \<open>paid\<close> from any status, and a charge job that throws sets \<open>failed\<close> from any status.
\<close>

theorem no_way_back_to_pending:
  "(commission_status_of (settle_all s xs) i = Some Pending \<longrightarrow>
      commission_status_of s i = Some Pending) \<and>
   (\<exists>s'. CreateCommissionChargeService_execute (AsaasOk cid) (AsaasOk charge) s data = (Inr charge, s') \<and>
      commission_status_of s' (com_id (chg_commission data)) =
        map_option (\<lambda>_. Charged) (commission_status_of s (com_id (chg_commission data)))) \<and>
   (findCommissionByPayment s (wd_payment d) = Some c \<and>
      (wd_event d = ''PAYMENT_CONFIRMED'' \<or> wd_event d = ''PAYMENT_RECEIVED'') \<longrightarrow>
      commission_status_of (ProcessWebhookService_execute s d) (com_id c) = Some Paid) \<and>
   (CommissionChargeJob_handle cr chr s job = (Some e, after) \<longrightarrow>
      commission_status_of after (jd_commissionId job) =
        map_option (\<lambda>_. Failed) (commission_status_of s (jd_commissionId job)))"
  using settle_all_no_pending charge_from_any_status confirmation_from_any_status
    job_failure_from_any_status by blast

lemma platform0_status: "commission_status_of platform0 1 = Some Pending"
  by (simp add: commission_status_of_def platform0_def ledger1_eq com1_def)

lemma overdue_keeps_pending:
  "commission_status_of
     (settle_all platform0
        [ChargeJob (AsaasOk ''cus_000005219613'') (AsaasOk charge1)
           \<lparr>jd_commissionId = 2, jd_paymentMethod = ''pix'', jd_dueDate = 1736899200,
            jd_creditCard = None\<rparr>,
         Webhook (confirmed\<lparr>wd_event := ''PAYMENT_OVERDUE''\<rparr>)]) 1 = Some Pending"
  by (simp add: settlement_defs settlement_examples ledger1_eq example_defs string_of_nat_1
      string_of_nat.simps [of 2])

lemma confirmed_found: "findCommissionByPayment platform0 (wd_payment confirmed) = Some com1"
  by (simp add: findCommissionByPayment_def platform0_def ledger1_eq confirmed_def com1_def
      string_of_nat_1)

lemma failed_job_value:
  "CommissionChargeJob_handle (AsaasOk ''cus_000005219613'') (AsaasApiError ''invalid'' 400)
     platform_paid
     \<lparr>jd_commissionId = 1, jd_paymentMethod = ''pix'', jd_dueDate = 1736899200, jd_creditCard = None\<rparr> =
   (Some (Error ''invalid'' None),
    platform_paid
      \<lparr>db := (db platform_paid)\<lparr>commissions := [com1_paid\<lparr>com_status := Failed\<rparr>]\<rparr>,
       asaasRequests :=
         [CreateCustomerRequest salon_customer,
          CreateChargeRequest
            \<lparr>ch_customer = ''cus_000005219613'', ch_billingType = JsString ''PIX'',
             ch_value = 21 / 8, ch_dueDate = 1736899200,
             ch_description = ''Commission payment - 1'', ch_externalReference = ''commission_1'',
             ch_creditCard = None\<rparr>]\<rparr>)"
  by (simp add: settlement_defs settlement_examples ledger1_eq example_defs string_of_nat_1)

theorem no_way_back_to_pending_witness:
  "commission_status_of
     (settle_all platform0
        [ChargeJob (AsaasOk ''cus_000005219613'') (AsaasOk charge1)
           \<lparr>jd_commissionId = 2, jd_paymentMethod = ''pix'', jd_dueDate = 1736899200,
            jd_creditCard = None\<rparr>,
         Webhook (confirmed\<lparr>wd_event := ''PAYMENT_OVERDUE''\<rparr>)]) 1 = Some Pending \<and>
   commission_status_of platform0 1 = Some Pending \<and>
   (\<exists>s'. CreateCommissionChargeService_execute (AsaasOk ''cus_000005219613'') (AsaasOk charge1)
            platform_paid (charge_request com1_paid ''pix'') = (Inr charge1, s') \<and>
      commission_status_of s' (com_id (chg_commission (charge_request com1_paid ''pix''))) =
        map_option (\<lambda>_. Charged)
          (commission_status_of platform_paid (com_id (chg_commission (charge_request com1_paid ''pix''))))) \<and>
   findCommissionByPayment platform0 (wd_payment confirmed) = Some com1 \<and>
   wd_event confirmed = ''PAYMENT_CONFIRMED'' \<and>
   commission_status_of (ProcessWebhookService_execute platform0 confirmed) (com_id com1) = Some Paid \<and>
   commission_status_of
     (snd (CommissionChargeJob_handle (AsaasOk ''cus_000005219613'') (AsaasApiError ''invalid'' 400)
        platform_paid
        \<lparr>jd_commissionId = 1, jd_paymentMethod = ''pix'', jd_dueDate = 1736899200,
         jd_creditCard = None\<rparr>)) 1 =
     map_option (\<lambda>_. Failed) (commission_status_of platform_paid 1)"
proof -
  have ev: "wd_event confirmed = ''PAYMENT_CONFIRMED''" by (simp add: confirmed_def)
  note a = no_way_back_to_pending
    [where s = platform0 and i = 1 and d = confirmed and c = com1
       and xs = "[ChargeJob (AsaasOk ''cus_000005219613'') (AsaasOk charge1)
           \<lparr>jd_commissionId = 2, jd_paymentMethod = ''pix'', jd_dueDate = 1736899200,
            jd_creditCard = None\<rparr>,
         Webhook (confirmed\<lparr>wd_event := ''PAYMENT_OVERDUE''\<rparr>)]"]
  let ?job = "\<lparr>jd_commissionId = 1, jd_paymentMethod = ''pix'', jd_dueDate = 1736899200,
         jd_creditCard = None\<rparr>"
  let ?run = "CommissionChargeJob_handle (AsaasOk ''cus_000005219613'')
        (AsaasApiError ''invalid'' 400) platform_paid ?job"
  note b = no_way_back_to_pending
    [where s = platform_paid and cid = "''cus_000005219613''" and charge = charge1
       and data = "charge_request com1_paid ''pix''"
       and cr = "AsaasOk ''cus_000005219613''" and chr = "AsaasApiError ''invalid'' 400"
       and job = ?job and e = "Error ''invalid'' None" and after = "snd ?run"]
  have "?run = (Some (Error ''invalid'' None), snd ?run)"
    by (simp only: failed_job_value snd_conv)
  then have j: "commission_status_of (snd ?run) 1 =
      map_option (\<lambda>_. Failed) (commission_status_of platform_paid 1)"
    using b by simp
  show ?thesis
    using a b overdue_keeps_pending confirmed_found ev j by blast
qed

text \<open>
  C6 as stated fails: a charge request on a \<open>paid\<close> commission is carried out and leaves
  it \<open>charged\<close>, and a payment confirmation for a \<open>pending\<close> commission leaves it
  \<open>paid\<close>; the state machine has neither transition.
\<close>

theorem paid_commission_charged_again:
  "commission_status_of platform_paid 1 = Some Paid \<and>
   fst (CreateCommissionChargeService_execute (AsaasOk ''cus_000005219613'') (AsaasOk charge1)
          platform_paid (charge_request com1_paid ''pix'')) = Inr charge1 \<and>
   commission_status_of
     (snd (CreateCommissionChargeService_execute (AsaasOk ''cus_000005219613'') (AsaasOk charge1)
             platform_paid (charge_request com1_paid ''pix''))) 1 = Some Charged \<and>
   \<not> spec_transition Paid Charged \<and>
   commission_status_of platform0 1 = Some Pending \<and>
   commission_status_of (ProcessWebhookService_execute platform0 confirmed) 1 = Some Paid \<and>
   \<not> spec_transition Pending Paid"
  by (simp add: settlement_defs settlement_examples ledger1_eq example_defs string_of_nat_1)

lemma find_payment_update:
  "findCommissionByPayment (CommissionRepository_update s j (paid_update q)) p =
   map_option (\<lambda>c. if com_id c = j then merge_commission c (paid_update q) else c)
     (findCommissionByPayment s p)"
proof -
  let ?f = "\<lambda>c. if com_id c = j then merge_commission c (paid_update q) else c"
  have cs: "commissions (db (CommissionRepository_update s j (paid_update q))) =
      map ?f (commissions (db s))"
    by (simp add: CommissionRepository_update_def)
  have a: "find (\<lambda>c. com_asaasChargeId c = Some (pay_id p)) (map ?f (commissions (db s))) =
      map_option ?f (find (\<lambda>c. com_asaasChargeId c = Some (pay_id p)) (commissions (db s)))"
    by (rule find_map_invariant) (simp add: merge_commission_def paid_update_def no_updates_def)
  have b: "find (\<lambda>c. pay_externalReference p = Some (''commission_'' @ string_of_nat (com_id c)))
        (map ?f (commissions (db s))) =
      map_option ?f (find (\<lambda>c. pay_externalReference p =
        Some (''commission_'' @ string_of_nat (com_id c))) (commissions (db s)))"
    by (rule find_map_invariant) (simp add: merge_commission_def)
  show ?thesis
    unfolding findCommissionByPayment_def cs a b by (simp split: option.splits)
qed

lemma find_payment_other [simp]:
  "findCommissionByPayment (s\<lparr>notifications := n\<rparr>) p = findCommissionByPayment s p"
  by (simp add: findCommissionByPayment_def cong: option.case_cong)

lemma update_twice:
  "db (CommissionRepository_update (CommissionRepository_update s j (paid_update q)) j (paid_update q)) =
   db (CommissionRepository_update s j (paid_update q))"
  by (simp add: CommissionRepository_update_def merge_commission_def paid_update_def
      no_updates_def comp_def if_distrib cong: if_cong)

lemma success_db:
  "db (handlePaymentSuccess s c p) = db (CommissionRepository_update s (com_id c) (paid_update p))"
  by (simp add: handlePaymentSuccess_def Let_def paid_update_def CommissionRepository_update_def)

lemma success_find:
  "findCommissionByPayment (handlePaymentSuccess s c q) p =
   map_option (\<lambda>x. if com_id x = com_id c then merge_commission x (paid_update q) else x)
     (findCommissionByPayment s p)"
  using find_payment_update [of s "com_id c" q p]
  by (simp add: handlePaymentSuccess_def Let_def paid_update_def [symmetric])

lemma update_db_cong:
  "db s = db s' \<Longrightarrow> db (CommissionRepository_update s j u) = db (CommissionRepository_update s' j u)"
  by (simp add: CommissionRepository_update_def)

lemma confirmation_replay:
  assumes ev: "wd_event d = ''PAYMENT_CONFIRMED'' \<or> wd_event d = ''PAYMENT_RECEIVED''"
  shows "db (ProcessWebhookService_execute (ProcessWebhookService_execute s d) d) =
         db (ProcessWebhookService_execute s d)"
proof (cases "findCommissionByPayment s (wd_payment d)")
  case None
  then show ?thesis by (simp add: ProcessWebhookService_execute_def)
next
  case (Some c)
  let ?p = "wd_payment d"
  let ?c' = "if com_id c = com_id c then merge_commission c (paid_update ?p) else c"
  have one: "ProcessWebhookService_execute s d = handlePaymentSuccess s c ?p"
    using Some ev by (auto simp: ProcessWebhookService_execute_def Let_def)
  have "findCommissionByPayment (handlePaymentSuccess s c ?p) ?p = Some (merge_commission c (paid_update ?p))"
    using Some by (simp add: success_find)
  then have two: "ProcessWebhookService_execute (handlePaymentSuccess s c ?p) d =
      handlePaymentSuccess (handlePaymentSuccess s c ?p) (merge_commission c (paid_update ?p)) ?p"
    using ev by (auto simp: ProcessWebhookService_execute_def Let_def)
  have id: "com_id (merge_commission c (paid_update ?p)) = com_id c"
    by (simp add: merge_commission_def)
  have "db (handlePaymentSuccess (handlePaymentSuccess s c ?p) (merge_commission c (paid_update ?p)) ?p) =
        db (CommissionRepository_update (CommissionRepository_update s (com_id c) (paid_update ?p))
              (com_id c) (paid_update ?p))"
    unfolding success_db id
    by (rule update_db_cong) (simp add: success_db)
  then show ?thesis unfolding one two by (simp add: update_twice success_db)
qed

lemma confirmation_result:
  assumes ev: "wd_event d = ''PAYMENT_CONFIRMED'' \<or> wd_event d = ''PAYMENT_RECEIVED''"
    and c: "findCommissionByPayment s (wd_payment d) = Some c"
  shows "\<exists>c'. find (\<lambda>x. com_id x = com_id c) (commissions (db (ProcessWebhookService_execute s d))) = Some c' \<and>
           com_status c' = Paid \<and> com_paidAt c' = paidAt_of (wd_payment d)"
proof -
  have one: "ProcessWebhookService_execute s d = handlePaymentSuccess s c (wd_payment d)"
    using c ev by (auto simp: ProcessWebhookService_execute_def Let_def)
  have "c \<in> set (commissions (db s))"
    using c by (auto simp: findCommissionByPayment_def find_Some_iff split: option.splits)
  then obtain x where x: "find (\<lambda>x. com_id x = com_id c) (commissions (db s)) = Some x"
    by (cases "find (\<lambda>x. com_id x = com_id c) (commissions (db s))") (auto simp: find_None_iff)
  then have "com_id x = com_id c" by (auto simp: find_Some_iff)
  then show ?thesis
    unfolding one success_db
    using x by (simp add: find_commission_update merge_commission_def paid_update_def no_updates_def)
qed

lemma webhook_keeps_webhooks:
  "paymentWebhooks (ProcessWebhookService_execute s d) = paymentWebhooks s"
  using webhook_cases [of s d]
  by (auto simp: handlePaymentSuccess_def handlePaymentOverdue_def handlePaymentCancellation_def
      CommissionRepository_update_def Let_def)

lemma webhook_job_replay:
  "ProcessWebhookJob_handle now2 (ProcessWebhookJob_handle now1 s i) i = ProcessWebhookJob_handle now1 s i"
proof (cases "find (\<lambda>h. wh_id h = i) (paymentWebhooks s)")
  case None
  then show ?thesis by (simp add: ProcessWebhookJob_handle_def)
next
  case (Some h)
  show ?thesis
  proof (cases "wh_processedAt h")
    case (Some t)
    then show ?thesis using \<open>find (\<lambda>h. wh_id h = i) (paymentWebhooks s) = Some h\<close>
      by (simp add: ProcessWebhookJob_handle_def)
  next
    case None
    let ?g = "\<lambda>h. if wh_id h = i then h\<lparr>wh_processedAt := Some now1\<rparr> else h"
    let ?s1 = "ProcessWebhookService_execute s (wh_payload h)"
    have one: "ProcessWebhookJob_handle now1 s i = ?s1\<lparr>paymentWebhooks := map ?g (paymentWebhooks s)\<rparr>"
      using None \<open>find (\<lambda>h. wh_id h = i) (paymentWebhooks s) = Some h\<close>
      by (simp add: ProcessWebhookJob_handle_def Let_def webhook_keeps_webhooks)
    have "find (\<lambda>h. wh_id h = i) (map ?g (paymentWebhooks s)) =
        map_option ?g (find (\<lambda>h. wh_id h = i) (paymentWebhooks s))"
      by (rule find_map_invariant) simp
    then have "find (\<lambda>h. wh_id h = i) (map ?g (paymentWebhooks s)) = Some (?g h)"
      using \<open>find (\<lambda>h. wh_id h = i) (paymentWebhooks s) = Some h\<close> by simp
    moreover have "wh_processedAt (?g h) = Some now1"
      using \<open>find (\<lambda>h. wh_id h = i) (paymentWebhooks s) = Some h\<close> by (auto simp: find_Some_iff)
    ultimately show ?thesis unfolding one
      by (simp add: ProcessWebhookJob_handle_def)
  qed
qed

text \<open>
  C7. Applying a payment-confirmation event (\<open>PAYMENT_CONFIRMED\<close> or
  \<open>PAYMENT_RECEIVED\<close>) a second time leaves the database exactly as the first
  application left it: the commission the payment belongs to is \<open>paid\<close>, with the
  \<open>paidAt\<close> of the payment. Run through the webhook job, the second run of a stored
  webhook finds it processed and changes nothing at all.
\<close>

theorem confirmation_idempotent:
  "(wd_event d = ''PAYMENT_CONFIRMED'' \<or> wd_event d = ''PAYMENT_RECEIVED'' \<longrightarrow>
      db (ProcessWebhookService_execute (ProcessWebhookService_execute s d) d) =
      db (ProcessWebhookService_execute s d)) \<and>
   ((wd_event d = ''PAYMENT_CONFIRMED'' \<or> wd_event d = ''PAYMENT_RECEIVED'') \<and>
      findCommissionByPayment s (wd_payment d) = Some c \<longrightarrow>
      (\<exists>c'. find (\<lambda>x. com_id x = com_id c)
               (commissions (db (ProcessWebhookService_execute s d))) = Some c' \<and>
         com_status c' = Paid \<and> com_paidAt c' = paidAt_of (wd_payment d))) \<and>
   ProcessWebhookJob_handle now2 (ProcessWebhookJob_handle now1 s i) i =
     ProcessWebhookJob_handle now1 s i"
  using confirmation_replay confirmation_result webhook_job_replay by blast

lemma confirmed_value:
  "wd_event confirmed = ''PAYMENT_CONFIRMED'' \<and>
   findCommissionByPayment platform_charged (wd_payment confirmed) = Some com1_charged \<and>
   commissions (db (ProcessWebhookService_execute platform_charged confirmed)) = [com1_paid] \<and>
   commissions (db (ProcessWebhookJob_handle 1736900000 platform_charged 1)) = [com1_paid]"
  by (simp add: settlement_defs settlement_examples ledger1_eq example_defs)

theorem confirmation_idempotent_witness:
  "wd_event confirmed = ''PAYMENT_CONFIRMED'' \<and>
   db (ProcessWebhookService_execute (ProcessWebhookService_execute platform_charged confirmed) confirmed) =
     db (ProcessWebhookService_execute platform_charged confirmed) \<and>
   findCommissionByPayment platform_charged (wd_payment confirmed) = Some com1_charged \<and>
   (\<exists>c'. find (\<lambda>x. com_id x = com_id com1_charged)
            (commissions (db (ProcessWebhookService_execute platform_charged confirmed))) = Some c' \<and>
      com_status c' = Paid \<and> com_paidAt c' = paidAt_of (wd_payment confirmed)) \<and>
   commissions (db (ProcessWebhookService_execute platform_charged confirmed)) = [com1_paid] \<and>
   ProcessWebhookJob_handle 1736990000 (ProcessWebhookJob_handle 1736900000 platform_charged 1) 1 =
     ProcessWebhookJob_handle 1736900000 platform_charged 1 \<and>
   commissions (db (ProcessWebhookJob_handle 1736900000 platform_charged 1)) = [com1_paid]"
  using confirmation_idempotent
    [where d = confirmed and s = platform_charged and c = com1_charged and i = 1
       and ?now1.0 = 1736900000 and ?now2.0 = 1736990000]
    confirmed_value
  by blast

end
